theory Spec2Isabelle
  imports Main
begin

section \<open>JavaScript values used by the resolver\<close>

text \<open>
  An optional property of an object (\<^verbatim>\<open>string | undefined\<close>) is an \<open>option\<close>: \<open>None\<close> is
  \<^verbatim>\<open>undefined\<close> (a property that is absent and one that holds \<^verbatim>\<open>undefined\<close> are
  identified).  The \<^verbatim>\<open>region\<close> of a query is the one property the code itself can set to
  \<^verbatim>\<open>null\<close> (\<^verbatim>\<open>byIso(c) && byIso(c).internet\<close>), so it has a value type with both.
  Coordinates are numbers on which the code does no arithmetic; they are integers here.
\<close>

datatype jsstr = Undefined | Null | Str string

definition truthy :: "string option \<Rightarrow> bool" where
  "truthy s = (case s of None \<Rightarrow> False | Some t \<Rightarrow> t \<noteq> [])"

definition truthy_js :: "jsstr \<Rightarrow> bool" where
  "truthy_js s = (case s of Str t \<Rightarrow> t \<noteq> [] | _ \<Rightarrow> False)"

definition truthy_num :: "int option \<Rightarrow> bool" where
  "truthy_num n = (case n of None \<Rightarrow> False | Some k \<Rightarrow> k \<noteq> 0)"

text \<open>\<^verbatim>\<open>a || b\<close> on optional strings and on optional numbers.\<close>

definition or_str :: "string option \<Rightarrow> string option \<Rightarrow> string option" where
  "or_str a b = (if truthy a then a else b)"

definition or_number :: "int option \<Rightarrow> int option \<Rightarrow> int option" where
  "or_number a b = (if truthy_num a then a else b)"

text \<open>\<^verbatim>\<open>String.prototype.toLowerCase\<close>, on the ASCII letters.\<close>

definition lower_char :: "char \<Rightarrow> char" where
  "lower_char c =
     (let n = (of_char c :: nat) in if 65 \<le> n \<and> n \<le> 90 then char_of (n + 32) else c)"

definition toLowerCase :: "string \<Rightarrow> string" where
  "toLowerCase s = map lower_char s"

text \<open>\<^verbatim>\<open>Array.prototype.join\<close> on strings.\<close>

fun join :: "string \<Rightarrow> string list \<Rightarrow> string" where
  "join sep [] = []"
| "join sep [x] = x"
| "join sep (x # y # ys) = x @ sep @ join sep (y # ys)"

section \<open>The data model: EtomonLocation and EtomonLocationQuery\<close>

text \<open>
  \<^verbatim>\<open>GeoJSONLocation\<close> and \<^verbatim>\<open>GeoJSONQuery\<close> are one object shape at run time: the
  coordinates \<^verbatim>\<open>[longitude, latitude]\<close>, the \<^verbatim>\<open>type\<close> of a record and the two radius
  bounds of a query.
\<close>

record GeoJSON =
  coordinates :: "int list option"
  gtype :: "string option"
  maxDistance :: "int option"
  minDistance :: "int option"

text \<open>
  \<^verbatim>\<open>EtomonLocationQueryOrResult\<close>: the functions of the resolver take a query or a record
  interchangeably and read the properties of either, so both are one record type.
  \<open>id'\<close> is the property \<^verbatim>\<open>id\<close> and \<open>u_id\<close> the property \<^verbatim>\<open>_id\<close>.
\<close>

record Loc =
  id' :: "string option"
  u_id :: "string option"
  locality :: "string option"
  administrativeLevel1 :: "string option"
  administrativeLevel2 :: "string option"
  country :: "string option"
  fromCache :: "bool option"
  location :: "GeoJSON option"
  region :: jsstr
  address :: "string option"
  ipAddress :: "string option"
  resolveIpWithGeo :: "bool option"
  timezone :: "string option"
  languages :: "string option list option"
  phoneCode :: "string option"
  countryName :: "string option"
  safeLabel :: "string option"

text \<open>The empty object \<^verbatim>\<open>{}\<close>.\<close>

definition empty_loc :: Loc where
  "empty_loc =
     \<lparr> id' = None, u_id = None, locality = None, administrativeLevel1 = None,
       administrativeLevel2 = None, country = None, fromCache = None, location = None,
       region = Undefined, address = None, ipAddress = None, resolveIpWithGeo = None,
       timezone = None, languages = None, phoneCode = None, countryName = None,
       safeLabel = None \<rparr>"

text \<open>The errors of \<^verbatim>\<open>LocationError.ts\<close>, a \<^verbatim>\<open>TypeError\<close> of the runtime, and the
  failures of the collaborators (the provider, the cache store, the IP database).\<close>

datatype error =
    TypeError
  | UpstreamFailure
  | CacheFailure
  | GeoIpFailure
  | LocationQueryError "Loc option" error
  | CouldNotResolveLocationError "Loc option"

section \<open>The collaborators\<close>

text \<open>One address component and one raw result of a geocoding response.\<close>

record component =
  types :: "string list"
  long_name :: "string option"
  short_name :: "string option"

text \<open>\<open>geometry_location\<close> is \<^verbatim>\<open>geometry.location\<close> as \<open>(lat, lng)\<close>, \<open>None\<close> when
  \<^verbatim>\<open>geometry\<close> or \<^verbatim>\<open>geometry.location\<close> is missing.\<close>

record rawResult =
  geometry_location :: "(int option \<times> int option) option"
  formatted_address :: "string option"
  place_id :: "string option"
  address_components :: "component list option"

record googleData =
  results :: "rawResult list option"
  timeZoneId :: "string option"

text \<open>The query string of a request, by the properties \<^verbatim>\<open>makeGoogleRequest\<close> is given.
  The timestamp of a timezone request is the clock's and is left to the oracle.\<close>

datatype qs =
    QLatLng "int option" "int option"
  | QAddress jsstr "string option"
  | QPlaceId "string option"
  | QRegion jsstr
  | QComponents jsstr string
  | QTimezone "int option" "int option"

record geoRes =
  longitude :: "int option"
  latitude :: "int option"
  geo_timezone :: "string option"
  isoCode :: "string option"
  subdivision0 :: "string option"
  subdivision1 :: "string option"
  city_name :: "string option"

record countryInfo =
  cname :: "string option"
  clanguages :: "string list"
  phone :: "string option"

datatype cache_reply = NotFound | StoreFailure | Found "Loc option list"

datatype LocationResolvePriorities =
    P_id | P_location | P_googlePlaceId | P_address | P_locality
  | P_administrativeLevel1 | P_administrativeLevel2 | P_country | P_ipAddress

text \<open>
  Everything the resolver reads from outside itself: the ccTLD table of
  \<^verbatim>\<open>country-code-lookup\<close> (\<open>byIso_internet c\<close> is the value of
  \<^verbatim>\<open>byIso(c) && byIso(c).internet\<close>), the encoder (\<open>hashKey q\<close> is the base64 text of
  \<^verbatim>\<open>hashObject(q)\<close>), the optional cache store, the priority list, the provider (the reply
  to a request, or the error \<^verbatim>\<open>makeGoogleRequest\<close> throws), the IP database and the static
  country and language tables.
\<close>

record env =
  byIso_internet :: "string \<Rightarrow> jsstr"
  hashKey :: "Loc option \<Rightarrow> string"
  cache :: "(string \<Rightarrow> cache_reply) option"
  resolvePriority :: "LocationResolvePriorities list"
  google :: "qs \<Rightarrow> error + googleData"
  geoip_city :: "string option \<Rightarrow> error + geoRes"
  countryData :: "string \<Rightarrow> countryInfo option"
  languageData :: "string \<Rightarrow> string option"

definition defaultResolvePriorities :: "LocationResolvePriorities list" where
  "defaultResolvePriorities =
     [P_ipAddress, P_id, P_location, P_googlePlaceId, P_address, P_locality,
      P_administrativeLevel1, P_administrativeLevel2, P_country]"

section \<open>Labels\<close>

text \<open>\<^verbatim>\<open>[...].filter(Boolean)\<close> on optional strings.\<close>

fun filter_Boolean :: "string option list \<Rightarrow> string list" where
  "filter_Boolean [] = []"
| "filter_Boolean (None # xs) = filter_Boolean xs"
| "filter_Boolean (Some s # xs) = (if s = [] then filter_Boolean xs else s # filter_Boolean xs)"

text \<open>
  \<^verbatim>\<open>LabelLocation\<close>.  The argument is an object or \<^verbatim>\<open>null\<close>; reading
  \<^verbatim>\<open>location.locality\<close> of \<^verbatim>\<open>null\<close> throws a \<^verbatim>\<open>TypeError\<close> before the guarded
  \<^verbatim>\<open>location && location.address\<close> is reached.  The result is a string or \<^verbatim>\<open>null\<close>.
\<close>

definition LabelLocation :: "Loc option \<Rightarrow> error + string option" where
  "LabelLocation loc =
     (case loc of
        None \<Rightarrow> Inl TypeError
      | Some l \<Rightarrow>
          (let parts = filter_Boolean
                 [or_str (locality l) (administrativeLevel2 l), administrativeLevel1 l, countryName l]
           in if length parts > 0 then Inr (Some (join '', '' parts))
              else Inr (if truthy (address l) then address l else None)))"

definition LabelLocationSafe :: "Loc option \<Rightarrow> error + string" where
  "LabelLocationSafe loc =
     (case LabelLocation loc of
        Inl e \<Rightarrow> Inl e
      | Inr r \<Rightarrow> Inr (case r of None \<Rightarrow> [] | Some s \<Rightarrow> s))"

section \<open>The canonicalizer\<close>

definition geoJSONFromLatLng :: "int list \<Rightarrow> GeoJSON" where
  "geoJSONFromLatLng cs =
     \<lparr> coordinates = Some cs, gtype = Some ''Point'', maxDistance = None, minDistance = None \<rparr>"

text \<open>The \<^verbatim>\<open>location\<close> property of the literal in \<^verbatim>\<open>queryFromLocation\<close>.\<close>

definition query_location :: "GeoJSON option \<Rightarrow> GeoJSON option" where
  "query_location g =
     (case g of
        None \<Rightarrow> None
      | Some geo \<Rightarrow>
          (case coordinates geo of
             None \<Rightarrow> None
           | Some cs \<Rightarrow>
               Some \<lparr> coordinates = Some cs, gtype = None,
                      maxDistance = or_number (maxDistance geo) (Some 0),
                      minDistance = or_number (minDistance geo) (Some 0) \<rparr>))"

text \<open>The \<^verbatim>\<open>region\<close> property of the literal, before it is lower-cased.\<close>

definition query_region :: "env \<Rightarrow> Loc \<Rightarrow> jsstr" where
  "query_region e l =
     (if region l \<noteq> Undefined then region l
      else (case country l of
              None \<Rightarrow> Undefined
            | Some c \<Rightarrow> if c = [] then Undefined else byIso_internet e c))"

definition lower_region :: "jsstr \<Rightarrow> jsstr" where
  "lower_region r = (case r of Str s \<Rightarrow> (if s = [] then Str s else Str (toLowerCase s)) | _ \<Rightarrow> r)"

text \<open>
  \<^verbatim>\<open>GeoResolver.queryFromLocation\<close>: a new object, built from a literal whose keys are in a
  fixed order and whose values are read from the argument by name; the argument is only
  read.  Properties left \<^verbatim>\<open>undefined\<close> are deleted, which \<open>None\<close> already says.
  \<open>queryFromLocation_obj\<close> is the function on an object; \<^verbatim>\<open>null\<close> is returned as it is.
\<close>

definition queryFromLocation_obj :: "env \<Rightarrow> Loc \<Rightarrow> Loc" where
  "queryFromLocation_obj e l =
     empty_loc
       \<lparr> administrativeLevel1 := administrativeLevel1 l,
         administrativeLevel2 := administrativeLevel2 l,
         country := country l,
         locality := locality l,
         address := address l,
         ipAddress := ipAddress l,
         resolveIpWithGeo :=
           (case resolveIpWithGeo l of None \<Rightarrow> Some True | Some b \<Rightarrow> Some b),
         location := query_location (location l),
         id' := or_str (u_id l) (id' l),
         u_id := or_str (u_id l) (id' l),
         region := lower_region (query_region e l) \<rparr>"

definition queryFromLocation :: "env \<Rightarrow> Loc option \<Rightarrow> Loc option" where
  "queryFromLocation e loc =
     (case loc of None \<Rightarrow> None | Some l \<Rightarrow> Some (queryFromLocation_obj e l))"

text \<open>
  \<^verbatim>\<open>GeoResolver.locationFromQuery\<close> works in place: it deletes the query-only properties of
  its argument, sets \<^verbatim>\<open>safeLabel\<close> and the \<^verbatim>\<open>type\<close> of the location on it and returns the
  same object.  \<open>strip_query_fields\<close> is the object after the five \<^verbatim>\<open>delete\<close>s;
  \<open>locationFromQuery_obj\<close> is the object when the function returns, or the error thrown.
\<close>

definition strip_distance :: "GeoJSON option \<Rightarrow> GeoJSON option" where
  "strip_distance g =
     (case g of None \<Rightarrow> None | Some geo \<Rightarrow> Some (geo\<lparr> maxDistance := None, minDistance := None \<rparr>))"

definition set_point :: "GeoJSON option \<Rightarrow> GeoJSON option" where
  "set_point g = (case g of None \<Rightarrow> None | Some geo \<Rightarrow> Some (geo\<lparr> gtype := Some ''Point'' \<rparr>))"

definition strip_query_fields :: "Loc \<Rightarrow> Loc" where
  "strip_query_fields l =
     l\<lparr> location := strip_distance (location l), fromCache := None, ipAddress := None,
        resolveIpWithGeo := None \<rparr>"

definition locationFromQuery_obj :: "env \<Rightarrow> Loc \<Rightarrow> error + Loc" where
  "locationFromQuery_obj e l =
     (let i = id' l; l1 = strip_query_fields l in
      case LabelLocationSafe (Some l1) of
        Inl err \<Rightarrow> Inl (LocationQueryError (queryFromLocation e (Some l1)) err)
      | Inr lbl \<Rightarrow>
          Inr (l1\<lparr> safeLabel := Some lbl, location := set_point (location l1), id' := i \<rparr>))"

definition locationFromQuery :: "env \<Rightarrow> Loc option \<Rightarrow> error + Loc option" where
  "locationFromQuery e r =
     (case r of
        None \<Rightarrow> Inr None
      | Some l \<Rightarrow> (case locationFromQuery_obj e l of Inl err \<Rightarrow> Inl err | Inr l' \<Rightarrow> Inr (Some l')))"

subsection \<open>The two functions on a store of objects\<close>





section \<open>The cache key\<close>

definition cacheKey :: "env \<Rightarrow> Loc option \<Rightarrow> string" where
  "cacheKey e input = hashKey e (queryFromLocation e input)"

section \<open>The response normalizer\<close>

text \<open>\<^verbatim>\<open>s.indexOf(p) !== -1\<close> and \<^verbatim>\<open>s.replace(p, '')\<close> for a string pattern (the first
  occurrence is removed).\<close>

fun starts_with :: "string \<Rightarrow> string \<Rightarrow> bool" where
  "starts_with [] s = True"
| "starts_with (p # ps) [] = False"
| "starts_with (p # ps) (c # cs) = (p = c \<and> starts_with ps cs)"

fun contains :: "string \<Rightarrow> string \<Rightarrow> bool" where
  "contains p [] = (p = [])"
| "contains p (c # cs) = (starts_with p (c # cs) \<or> contains p cs)"

fun remove_first :: "string \<Rightarrow> string \<Rightarrow> string" where
  "remove_first p [] = []"
| "remove_first p (c # cs) =
     (if starts_with p (c # cs) then drop (length p) (c # cs) else c # remove_first p cs)"

text \<open>
  The numbers the normalizer meets are the results of \<^verbatim>\<open>Number(s)\<close> on what is left of a
  type string: an unsigned decimal (the empty string is 0), or \<^verbatim>\<open>NaN\<close>.  Signed, fractional,
  hexadecimal and exponent literals, which no type string of the provider holds, are
  \<^verbatim>\<open>NaN\<close> here.  \<open>String_of\<close> is the text \<^verbatim>\<open>String(n)\<close> the default comparator of
  \<^verbatim>\<open>Array.prototype.sort\<close> compares.
\<close>

datatype jsnumber = Num nat | NaN

definition is_digit :: "char \<Rightarrow> bool" where
  "is_digit c = (48 \<le> (of_char c :: nat) \<and> (of_char c :: nat) \<le> 57)"

definition Number :: "string \<Rightarrow> jsnumber" where
  "Number s =
     (if list_all is_digit s then Num (foldl (\<lambda>a c. 10 * a + ((of_char c :: nat) - 48)) 0 s)
      else NaN)"

fun digits :: "nat \<Rightarrow> string" where
  "digits n =
     (if n < 10 then [char_of (48 + n)] else digits (n div 10) @ [char_of (48 + n mod 10)])"

definition String_of :: "jsnumber \<Rightarrow> string" where
  "String_of x = (case x of Num n \<Rightarrow> digits n | NaN \<Rightarrow> ''NaN'')"

text \<open>The order of strings by code units, which \<^verbatim>\<open>sort()\<close> without a comparator uses.\<close>

fun str_less :: "string \<Rightarrow> string \<Rightarrow> bool" where
  "str_less [] [] = False"
| "str_less [] (y # ys) = True"
| "str_less (x # xs) [] = False"
| "str_less (x # xs) (y # ys) =
     ((of_char x :: nat) < of_char y \<or> (x = y \<and> str_less xs ys))"

fun insert_sorted :: "jsnumber \<Rightarrow> jsnumber list \<Rightarrow> jsnumber list" where
  "insert_sorted x [] = [x]"
| "insert_sorted x (y # ys) =
     (if str_less (String_of y) (String_of x) then y # insert_sorted x ys else x # y # ys)"

text \<open>\<^verbatim>\<open>Array.prototype.sort()\<close> with no comparator, on numbers: a stable sort by the
  elements' texts.\<close>

definition sort_default :: "jsnumber list \<Rightarrow> jsnumber list" where
  "sort_default xs = foldr insert_sorted xs []"

text \<open>\<^verbatim>\<open>Map<number, string>\<close>: the entries in insertion order; \<^verbatim>\<open>set\<close> on a key that is
  present keeps its place.  \<^verbatim>\<open>get(undefined)\<close> is \<^verbatim>\<open>undefined\<close>.\<close>

type_synonym adminLevelMap = "(jsnumber \<times> string option) list"

fun map_set :: "jsnumber \<Rightarrow> string option \<Rightarrow> adminLevelMap \<Rightarrow> adminLevelMap" where
  "map_set k v [] = [(k, v)]"
| "map_set k v ((k', v') # m) = (if k' = k then (k, v) # m else (k', v') # map_set k v m)"

fun map_get :: "adminLevelMap \<Rightarrow> jsnumber option \<Rightarrow> string option" where
  "map_get m None = None"
| "map_get [] (Some k) = None"
| "map_get ((k', v') # m) (Some k) = (if k' = k then v' else map_get m (Some k))"

text \<open>\<^verbatim>\<open>xs[i]\<close>, \<^verbatim>\<open>undefined\<close> out of range.\<close>

fun nth_opt :: "'a list \<Rightarrow> nat \<Rightarrow> 'a option" where
  "nth_opt [] i = None"
| "nth_opt (x # xs) 0 = Some x"
| "nth_opt (x # xs) (Suc i) = nth_opt xs i"

text \<open>\<^verbatim>\<open>types.filter(t => t.indexOf('administrative_area_level') !== -1)[0]\<close>.\<close>

definition adminLevelStr :: "string list \<Rightarrow> string option" where
  "adminLevelStr tys = nth_opt (filter (contains ''administrative_area_level'') tys) 0"

text \<open>The walk over the address components of one raw result: the record being built
  and the map of administrative levels.\<close>

fun walk_components :: "component list \<Rightarrow> Loc \<times> adminLevelMap \<Rightarrow> Loc \<times> adminLevelMap" where
  "walk_components [] st = st"
| "walk_components (c # cs) (r, m) =
     (if ''locality'' \<in> set (types c) then walk_components cs (r\<lparr> locality := long_name c \<rparr>, m)
      else if ''sublocality'' \<in> set (types c) \<and> \<not> truthy (locality r)
        then walk_components cs (r\<lparr> locality := long_name c \<rparr>, m)
      else (case adminLevelStr (types c) of
              Some t \<Rightarrow>
                (if t \<noteq> []
                 then walk_components cs
                        (r, map_set (Number (remove_first ''administrative_area_level_'' t))
                              (long_name c) m)
                 else if ''country'' \<in> set (types c)
                   then walk_components cs (r\<lparr> country := short_name c \<rparr>, m)
                 else walk_components cs (r, m))
            | None \<Rightarrow>
                (if ''country'' \<in> set (types c)
                 then walk_components cs (r\<lparr> country := short_name c \<rparr>, m)
                 else walk_components cs (r, m))))"

text \<open>\<^verbatim>\<open>Array.from(adminLevelMap.keys()).sort().slice(0, 2)\<close>.\<close>

definition lowestLevels :: "adminLevelMap \<Rightarrow> jsnumber list" where
  "lowestLevels m = take 2 (sort_default (map fst m))"

text \<open>The body of the loop of \<^verbatim>\<open>processGoogleResponse\<close> for one raw result: the record
  yielded, or the error thrown.  \<open>q\<close> is \<^verbatim>\<open>$result\<close>, which every caller passes as a
  canonical query.\<close>

definition process_raw :: "env \<Rightarrow> Loc option \<Rightarrow> rawResult \<Rightarrow> error + Loc" where
  "process_raw e q raw =
     (case geometry_location raw of
        Some (Some lat, Some lng) \<Rightarrow>
          (let r0 = (case q of None \<Rightarrow> empty_loc | Some l \<Rightarrow> l);
               r1 = r0\<lparr> location :=
                        (case location r0 of
                           Some g \<Rightarrow> Some g
                         | None \<Rightarrow> Some (geoJSONFromLatLng [lng, lat])) \<rparr>;
               r2 = (if truthy (formatted_address raw)
                     then r1\<lparr> address := formatted_address raw \<rparr> else r1);
               r3 = (if truthy (place_id raw)
                     then r2\<lparr> id' := place_id raw, u_id := place_id raw \<rparr> else r2)
           in case address_components raw of
                None \<Rightarrow> Inl TypeError
              | Some cs \<Rightarrow>
                  (case walk_components cs (r3, []) of
                     (r4, m) \<Rightarrow>
                       Inr (r4\<lparr> administrativeLevel1 := map_get m (nth_opt (lowestLevels m) 0),
                                administrativeLevel2 := map_get m (nth_opt (lowestLevels m) 1) \<rparr>)))
      | _ \<Rightarrow> Inl (CouldNotResolveLocationError (queryFromLocation e q)))"

text \<open>The generator \<^verbatim>\<open>processGoogleResponse\<close>: the records it yields, in order, and the
  error that ends it, if any.\<close>

fun process_results :: "env \<Rightarrow> Loc option \<Rightarrow> rawResult list \<Rightarrow> Loc list \<times> error option" where
  "process_results e q [] = ([], None)"
| "process_results e q (raw # rs) =
     (case process_raw e q raw of
        Inl err \<Rightarrow> ([], Some err)
      | Inr r \<Rightarrow> (case process_results e q rs of (ys, t) \<Rightarrow> (r # ys, t)))"

definition processGoogleResponse :: "env \<Rightarrow> Loc option \<Rightarrow> googleData \<Rightarrow> Loc list \<times> error option" where
  "processGoogleResponse e q d =
     (case results d of None \<Rightarrow> ([], None) | Some rs \<Rightarrow> process_results e q rs)"

section \<open>Asynchronous generators\<close>

text \<open>
  What a generator does is observed as events: an effect on a collaborator (a request to
  the provider, a lookup in the IP database, a read or a write of the cache store) or a
  value yielded.
\<close>

datatype effect =
    GoogleRequest qs
  | GeoIpLookup "string option"
  | CacheGet string
  | CachePut string "Loc option list"

datatype event = Did effect | Yield "Loc option"

text \<open>
  A generator is lazy: what it does next happens only when its consumer asks for the
  next value.  \<open>Return t\<close> is a generator that ends (\<open>t\<close> is the error it throws, if any),
  \<open>Effect ev g\<close> performs \<open>ev\<close> and goes on as \<open>g\<close>, \<open>YieldFresh v g\<close> yields a value no one
  else holds.  \<open>YieldShared r k\<close> yields an object the generator goes on using: the
  consumer may have changed it in place before it asks for the next value, and \<open>k\<close> is
  the rest of the generator as a function of the object's state then.
\<close>

datatype gen =
    Return "error option"
  | Effect effect gen
  | YieldShared Loc "Loc \<Rightarrow> gen"
  | YieldFresh "Loc option" gen

text \<open>\<^verbatim>\<open>for (const x of xs) yield x\<close>, then \<open>g\<close>.\<close>

fun yield_all :: "Loc option list \<Rightarrow> gen \<Rightarrow> gen" where
  "yield_all [] g = g"
| "yield_all (x # xs) g = YieldFresh x (yield_all xs g)"

text \<open>The events of a generator that is drained by a consumer which leaves the yielded
  objects as they are, and the error that ends it.\<close>

primrec trace :: "gen \<Rightarrow> event list" where
  "trace (Return t) = []"
| "trace (Effect ev g) = Did ev # trace g"
| "trace (YieldShared r k) = Yield (Some r) # trace (k r)"
| "trace (YieldFresh v g) = Yield v # trace g"

primrec outcome :: "gen \<Rightarrow> error option" where
  "outcome (Return t) = t"
| "outcome (Effect ev g) = outcome g"
| "outcome (YieldShared r k) = outcome (k r)"
| "outcome (YieldFresh v g) = outcome g"

text \<open>\<^verbatim>\<open>for await (const loc of g) { return loc; } return null;\<close>: the effects performed and
  the value returned or the error thrown.  Nothing behind the first yield is run.\<close>

primrec first_of :: "gen \<Rightarrow> effect list \<times> (error + Loc option)" where
  "first_of (Return t) = ([], case t of None \<Rightarrow> Inr None | Some err \<Rightarrow> Inl err)"
| "first_of (Effect ev g) = (ev # fst (first_of g), snd (first_of g))"
| "first_of (YieldShared r k) = ([], Inr (Some r))"
| "first_of (YieldFresh v g) = ([], Inr v)"

text \<open>The values yielded, in order.\<close>

fun yields_of :: "event list \<Rightarrow> Loc option list" where
  "yields_of [] = []"
| "yields_of (Did x # evs) = yields_of evs"
| "yields_of (Yield v # evs) = v # yields_of evs"

section \<open>The lookup strategies\<close>

text \<open>\<^verbatim>\<open>makeGoogleRequest\<close> followed by \<^verbatim>\<open>processGoogleResponse(query, data)\<close> inside the
  \<^verbatim>\<open>try\<close> of a strategy, whose \<^verbatim>\<open>catch\<close> wraps every error in a \<^verbatim>\<open>LocationQueryError\<close>.\<close>

definition run_google :: "env \<Rightarrow> Loc \<Rightarrow> qs \<Rightarrow> gen \<Rightarrow> gen" where
  "run_google e q request k =
     Effect (GoogleRequest request)
       (case google e request of
          Inl err \<Rightarrow> Return (Some (LocationQueryError (Some q) err))
        | Inr d \<Rightarrow>
            (case processGoogleResponse e (Some q) d of
               (ys, t) \<Rightarrow>
                 yield_all (map Some ys)
                   (case t of
                      None \<Rightarrow> k
                    | Some err \<Rightarrow> Return (Some (LocationQueryError (Some q) err)))))"

definition resolveLocationByLatitudeAndLongitude :: "env \<Rightarrow> Loc \<Rightarrow> gen \<Rightarrow> gen" where
  "resolveLocationByLatitudeAndLongitude e r k =
     (let q = queryFromLocation_obj e r in
      case location q of
        None \<Rightarrow> Return (Some (LocationQueryError (Some q) TypeError))
      | Some g \<Rightarrow>
          (case coordinates g of
             None \<Rightarrow> Return (Some (LocationQueryError (Some q) TypeError))
           | Some cs \<Rightarrow> run_google e q (QLatLng (nth_opt cs 1) (nth_opt cs 0)) k))"

definition resolveLocationByAddress :: "env \<Rightarrow> Loc \<Rightarrow> gen \<Rightarrow> gen" where
  "resolveLocationByAddress e r k =
     (let q = queryFromLocation_obj e r in run_google e q (QAddress (region q) (address q)) k)"

text \<open>The query string \<^verbatim>\<open>q\<close> of \<^verbatim>\<open>resolveLocationByPlaceId\<close>, from the canonical query.\<close>

definition placeId_request :: "Loc \<Rightarrow> qs" where
  "placeId_request q =
     (if \<not> truthy (or_str (u_id q) (id' q)) \<and> truthy_js (region q) then QRegion (region q)
      else QPlaceId (or_str (u_id q) (id' q)))"

definition resolveLocationByPlaceId :: "env \<Rightarrow> Loc \<Rightarrow> gen \<Rightarrow> gen" where
  "resolveLocationByPlaceId e r k =
     (let q = queryFromLocation_obj e r in run_google e q (placeId_request q) k)"

text \<open>\<^verbatim>\<open>assembleAddressComponents\<close>: the entries of the map in insertion order.\<close>

definition entry :: "string \<Rightarrow> string option \<Rightarrow> (string \<times> string) list" where
  "entry k v = (case v of None \<Rightarrow> [] | Some t \<Rightarrow> if t = [] then [] else [(k, t)])"

definition assembleAddressComponents :: "env \<Rightarrow> Loc \<Rightarrow> (string \<times> string) list" where
  "assembleAddressComponents e input =
     (let query = queryFromLocation_obj e input in
      entry ''locality'' (locality query)
      @ entry ''administrative_area_level_2'' (administrativeLevel2 query)
      @ entry ''administrative_area_level_1'' (administrativeLevel1 query)
      @ entry ''country'' (country query))"

text \<open>The white space of \<^verbatim>\<open>/\s/\<close>, among the ASCII characters.\<close>

definition is_space :: "char \<Rightarrow> bool" where
  "is_space c = ((of_char c :: nat) \<in> set [9, 10, 11, 12, 13, 32])"

definition component_text :: "string \<times> string \<Rightarrow> string" where
  "component_text kv =
     (if contains ''administrative_area'' (fst kv) then ''administrative_area'' else fst kv)
     @ '':'' @ map (\<lambda>c. if is_space c then CHR ''+'' else c) (snd kv)"

definition resolveLocationByAddressComponents :: "env \<Rightarrow> Loc \<Rightarrow> gen \<Rightarrow> gen" where
  "resolveLocationByAddressComponents e r k =
     (let q = queryFromLocation_obj e r;
          c = map component_text (assembleAddressComponents e q)
      in run_google e q (QComponents (region q) (join ''|'' c)) k)"

text \<open>
  \<^verbatim>\<open>resolveLocationByIpAddress\<close> writes into the object it is given (\<^verbatim>\<open>output = result\<close>)
  and yields that object.  \<open>ip_record\<close> is the object when it is yielded.  Nothing is
  written before \<^verbatim>\<open>geoip.city\<close> has returned.
\<close>

definition ip_record :: "env \<Rightarrow> Loc \<Rightarrow> geoRes \<Rightarrow> error + Loc" where
  "ip_record e r g =
     (let query = queryFromLocation_obj e r;
          o1 = (if truthy_num (longitude g) \<and> truthy_num (latitude g)
                then (case (longitude g, latitude g) of
                        (Some lng, Some lat) \<Rightarrow> r\<lparr> location := Some (geoJSONFromLatLng [lng, lat]) \<rparr>
                      | _ \<Rightarrow> r)
                else r);
          o2 = (if truthy (geo_timezone g) then o1\<lparr> timezone := geo_timezone g \<rparr> else o1);
          o3 = (if truthy (isoCode g) then o2\<lparr> country := isoCode g \<rparr> else o2);
          countryDataObj =
            (case isoCode g of None \<Rightarrow> None | Some c \<Rightarrow> if c = [] then None else countryData e c);
          cn = (case countryDataObj of None \<Rightarrow> None | Some ci \<Rightarrow> cname ci);
          o4 = (if truthy cn then o3\<lparr> countryName := cn \<rparr> else o3);
          langs = (case countryDataObj of
                     None \<Rightarrow> None
                   | Some ci \<Rightarrow> Some (map (languageData e) (clanguages ci)));
          o5 = (case langs of
                  None \<Rightarrow> o4
                | Some ls \<Rightarrow> if ls = [] then o4 else o4\<lparr> languages := Some ls \<rparr>);
          o6 = (if truthy (subdivision0 g) then o5\<lparr> administrativeLevel1 := subdivision0 g \<rparr> else o5);
          o7 = (if truthy (subdivision1 g) then o6\<lparr> administrativeLevel2 := subdivision1 g \<rparr> else o6);
          o8 = (if truthy (city_name g) then o7\<lparr> locality := city_name g \<rparr> else o7)
      in case LabelLocation
                (Some (empty_loc\<lparr> locality := city_name g, administrativeLevel1 := subdivision0 g,
                                  administrativeLevel2 := subdivision1 g, countryName := cn \<rparr>)) of
           Inl err \<Rightarrow> Inl err
         | Inr a \<Rightarrow>
             Inr ((if truthy a then o8\<lparr> address := a \<rparr> else o8)
                    \<lparr> id' := Some (cacheKey e (Some query)),
                      u_id := Some (cacheKey e (Some query)) \<rparr>))"

definition resolveLocationByIpAddress :: "env \<Rightarrow> Loc \<Rightarrow> (Loc \<Rightarrow> gen) \<Rightarrow> gen" where
  "resolveLocationByIpAddress e r k =
     (let q = queryFromLocation_obj e r in
      Effect (GeoIpLookup (ipAddress q))
        (case geoip_city e (ipAddress q) of
           Inl err \<Rightarrow> Return (Some (LocationQueryError (Some q) err))
         | Inr g \<Rightarrow>
             (case ip_record e r g of
                Inl err \<Rightarrow> Return (Some (LocationQueryError (Some q) err))
              | Inr out \<Rightarrow> YieldShared out k)))"

section \<open>The cache adapter\<close>

text \<open>
  \<^verbatim>\<open>getLocationsFromCache\<close> and \<^verbatim>\<open>getLocationsFromCacheCount\<close>, in continuation style: \<open>k\<close>
  is what the caller does with the list (the count).  Without a store the list is empty;
  \<^verbatim>\<open>notFound\<close> is swallowed and any other error of the store is thrown on.  The store
  is a function of the key: no one else writes to it while one resolution runs.
\<close>

definition getLocationsFromCache :: "env \<Rightarrow> Loc \<Rightarrow> (Loc option list \<Rightarrow> gen) \<Rightarrow> gen" where
  "getLocationsFromCache e q k =
     (case cache e of
        None \<Rightarrow> k []
      | Some c \<Rightarrow>
          Effect (CacheGet (cacheKey e (Some q)))
            (case c (cacheKey e (Some q)) of
               NotFound \<Rightarrow> k []
             | StoreFailure \<Rightarrow> Return (Some CacheFailure)
             | Found xs \<Rightarrow> k xs))"

definition getLocationsFromCacheCount :: "env \<Rightarrow> Loc \<Rightarrow> (nat \<Rightarrow> gen) \<Rightarrow> gen" where
  "getLocationsFromCacheCount e q k = getLocationsFromCache e q (\<lambda>xs. k (length xs))"

section \<open>The resolution cascade\<close>

text \<open>\<^verbatim>\<open>query[priority]\<close> is truthy.  A canonical query has no property
  \<^verbatim>\<open>googlePlaceId\<close>.\<close>

fun query_has :: "Loc \<Rightarrow> LocationResolvePriorities \<Rightarrow> bool" where
  "query_has q P_id = truthy (id' q)"
| "query_has q P_location = (location q \<noteq> None)"
| "query_has q P_googlePlaceId = False"
| "query_has q P_address = truthy (address q)"
| "query_has q P_locality = truthy (locality q)"
| "query_has q P_administrativeLevel1 = truthy (administrativeLevel1 q)"
| "query_has q P_administrativeLevel2 = truthy (administrativeLevel2 q)"
| "query_has q P_country = truthy (country q)"
| "query_has q P_ipAddress = truthy (ipAddress q)"

text \<open>\<^verbatim>\<open>query.location && query.location.coordinates && query.location.coordinates.length\<close>.\<close>

definition has_coordinates :: "Loc \<Rightarrow> bool" where
  "has_coordinates q =
     (case location q of
        None \<Rightarrow> False
      | Some g \<Rightarrow> (case coordinates g of None \<Rightarrow> False | Some cs \<Rightarrow> cs \<noteq> []))"

text \<open>The narrow probes: the object \<^verbatim>\<open>q\<close> each branch of the cascade builds.\<close>

definition keep :: "string option \<Rightarrow> string option" where
  "keep v = (if truthy v then v else None)"

definition probe_id :: "Loc \<Rightarrow> Loc" where
  "probe_id query = empty_loc\<lparr> u_id := id' query \<rparr>"

definition probe_address :: "Loc \<Rightarrow> Loc" where
  "probe_address query = empty_loc\<lparr> address := address query \<rparr>"

definition probe_locality :: "Loc \<Rightarrow> Loc" where
  "probe_locality query =
     empty_loc\<lparr> locality := locality query,
                administrativeLevel2 := keep (administrativeLevel2 query),
                administrativeLevel1 := keep (administrativeLevel1 query),
                country := keep (country query) \<rparr>"

definition probe_administrativeLevel2 :: "Loc \<Rightarrow> Loc" where
  "probe_administrativeLevel2 query =
     empty_loc\<lparr> administrativeLevel2 := administrativeLevel2 query,
                administrativeLevel1 := keep (administrativeLevel1 query),
                country := keep (country query) \<rparr>"

definition probe_administrativeLevel1 :: "Loc \<Rightarrow> Loc" where
  "probe_administrativeLevel1 query =
     empty_loc\<lparr> administrativeLevel1 := administrativeLevel1 query,
                country := keep (country query) \<rparr>"

definition probe_country :: "Loc \<Rightarrow> Loc" where
  "probe_country query = empty_loc\<lparr> country := country query \<rparr>"

text \<open>
  The shape every branch but the first has: when the cache holds records for the probe
  they are yielded and the loop is left (\<^verbatim>\<open>break\<close>, after which the generator returns);
  otherwise \<open>live\<close>, the strategy followed by the rest of the loop, runs.
\<close>

definition cached_or :: "env \<Rightarrow> Loc \<Rightarrow> gen \<Rightarrow> gen" where
  "cached_or e q live =
     getLocationsFromCacheCount e q
       (\<lambda>n. if n \<noteq> 0 then getLocationsFromCache e q (\<lambda>xs. yield_all xs (Return None))
            else live)"

text \<open>
  One turn of the loop of \<^verbatim>\<open>resolveLocation\<close> for the priority \<open>p\<close>: \<open>query\<close> is the
  canonical query computed on entry, \<open>result\<close> the argument object as it is now, and \<open>k\<close>
  the rest of the loop as a function of the argument object (\<^verbatim>\<open>continue\<close> and the end of
  the body are \<open>k result\<close>).
\<close>

definition facet ::
  "env \<Rightarrow> Loc \<Rightarrow> Loc \<Rightarrow> LocationResolvePriorities \<Rightarrow> (Loc \<Rightarrow> gen) \<Rightarrow> gen" where
  "facet e query result priority k =
     (if location result = None \<and> \<not> truthy (ipAddress query) \<and> \<not> query_has query priority
      then k result
      else if priority = P_ipAddress \<and> truthy (ipAddress query) \<and> id' query = id' result
      then resolveLocationByIpAddress e result
             (\<lambda>r'. if resolveIpWithGeo query = Some True then k r' else Return None)
      else if priority = P_id \<and> truthy (id' query) \<and> id' query = id' result
      then cached_or e (probe_id query) (resolveLocationByPlaceId e result (k result))
      else if priority = P_location \<and> has_coordinates query \<and> location result = location query
      then cached_or e query (resolveLocationByLatitudeAndLongitude e result (k result))
      else if priority = P_address \<and> truthy (address query) \<and> address result = address query
      then cached_or e (probe_address query) (resolveLocationByAddress e result (k result))
      else if priority = P_locality \<and> truthy (locality query)
              \<and> locality result = locality query
      then cached_or e (probe_locality query)
             (resolveLocationByAddressComponents e result (k result))
      else if priority = P_administrativeLevel2 \<and> truthy (administrativeLevel2 query)
              \<and> administrativeLevel2 result = administrativeLevel2 query
      then cached_or e (probe_administrativeLevel2 query)
             (resolveLocationByAddressComponents e result (k result))
      else if priority = P_administrativeLevel1 \<and> truthy (administrativeLevel1 query)
              \<and> administrativeLevel1 result = administrativeLevel1 query
      then cached_or e (probe_administrativeLevel1 query)
             (resolveLocationByAddressComponents e result (k result))
      else if priority = P_country \<and> truthy (country query) \<and> country result = country query
      then cached_or e (probe_country query)
             (resolveLocationByAddressComponents e result (k result))
      else k result)"

primrec resolveLocation_loop ::
  "env \<Rightarrow> Loc \<Rightarrow> LocationResolvePriorities list \<Rightarrow> Loc \<Rightarrow> gen" where
  "resolveLocation_loop e query [] = (\<lambda>result. Return None)"
| "resolveLocation_loop e query (p # ps) =
     (\<lambda>result. facet e query result p (resolveLocation_loop e query ps))"

definition resolveLocation :: "env \<Rightarrow> Loc option \<Rightarrow> gen" where
  "resolveLocation e result =
     (case result of
        None \<Rightarrow> Return None
      | Some r \<Rightarrow> resolveLocation_loop e (queryFromLocation_obj e r) (resolvePriority e) r)"

definition resolveOneLocation :: "env \<Rightarrow> Loc option \<Rightarrow> effect list \<times> (error + Loc option)" where
  "resolveOneLocation e result = first_of (resolveLocation e result)"

section \<open>Enrichment\<close>

text \<open>
  \<^verbatim>\<open>getTimezone\<close>: the effects, and the object returned (\<open>None\<close> is \<^verbatim>\<open>null\<close>, returned
  when the reply has no \<^verbatim>\<open>timeZoneId\<close>) or the error thrown.  The argument object is
  written only on the way to a successful return, and is then the object returned.
\<close>

definition getTimezone :: "env \<Rightarrow> Loc \<Rightarrow> effect list \<times> (error + Loc option)" where
  "getTimezone e result =
     (let query = queryFromLocation_obj e result in
      case location query of
        None \<Rightarrow> ([], Inl (LocationQueryError (Some query) TypeError))
      | Some g \<Rightarrow>
          (case coordinates g of
             None \<Rightarrow> ([], Inl (LocationQueryError (Some query) TypeError))
           | Some cs \<Rightarrow>
               ([GoogleRequest (QTimezone (nth_opt cs 1) (nth_opt cs 0))],
                case google e (QTimezone (nth_opt cs 1) (nth_opt cs 0)) of
                  Inl err \<Rightarrow> Inl (LocationQueryError (Some query) err)
                | Inr d \<Rightarrow>
                    if \<not> truthy (timeZoneId d) then Inr None
                    else Inr (Some (result
                           \<lparr> location := (case location result of
                                             Some l \<Rightarrow> Some l
                                           | None \<Rightarrow> Some (geoJSONFromLatLng cs)),
                             id' := or_str (id' result) (id' query),
                             timezone := timeZoneId d \<rparr>)))))"

text \<open>
  \<^verbatim>\<open>getCountryInfo\<close>: the error thrown, if any, and the argument object after the call
  (which is the object returned when nothing is thrown).  \<^verbatim>\<open>result.id\<close> is written
  before \<^verbatim>\<open>info.languages\<close> is read, so it is written also when that read throws.
\<close>

definition country_key :: "string option \<Rightarrow> string" where
  "country_key c = (case c of None \<Rightarrow> ''undefined'' | Some s \<Rightarrow> s)"

definition getCountryInfo :: "env \<Rightarrow> Loc \<Rightarrow> error option \<times> Loc" where
  "getCountryInfo e result =
     (let query = queryFromLocation_obj e result;
          info = countryData e (country_key (country query))
      in case (case location result of
                 Some l \<Rightarrow> Some (Some l)
               | None \<Rightarrow>
                   (case location query of
                      None \<Rightarrow> None
                    | Some g \<Rightarrow>
                        (case coordinates g of
                           None \<Rightarrow> None
                         | Some cs \<Rightarrow> Some (Some (geoJSONFromLatLng cs))))) of
           None \<Rightarrow> (Some (LocationQueryError (Some query) TypeError), result)
         | Some loc \<Rightarrow>
             (let r2 = result\<lparr> location := loc, id' := or_str (id' result) (id' query) \<rparr> in
              case info of
                None \<Rightarrow> (Some (LocationQueryError (Some query) TypeError), r2)
              | Some ci \<Rightarrow>
                  if list_all (\<lambda>s. languageData e s \<noteq> None) (clanguages ci)
                  then (None, r2\<lparr> languages := Some (map (languageData e) (clanguages ci)),
                                   phoneCode := phone ci \<rparr>)
                  else (Some (LocationQueryError (Some query) TypeError), r2)))"

text \<open>The second statement of the \<^verbatim>\<open>try\<close> block of \<^verbatim>\<open>resolveLocationsInner\<close>: the object
  afterwards, whether \<^verbatim>\<open>getCountryInfo\<close> threw or not.\<close>

definition country_step :: "env \<Rightarrow> Loc \<Rightarrow> Loc" where
  "country_step e r =
     (if languages r = None \<or> phoneCode r = None then snd (getCountryInfo e r) else r)"

text \<open>
  The \<^verbatim>\<open>try { ... } catch (err) { }\<close> of \<^verbatim>\<open>resolveLocationsInner\<close>: the effects and the
  value of the variable \<^verbatim>\<open>result\<close> after it.  When \<^verbatim>\<open>getTimezone\<close> returns \<^verbatim>\<open>null\<close> the
  variable is \<^verbatim>\<open>null\<close>; reading \<^verbatim>\<open>result.languages\<close> then throws, which is caught.
\<close>

definition enrich :: "env \<Rightarrow> Loc \<Rightarrow> effect list \<times> Loc option" where
  "enrich e r =
     (if timezone r = None
      then (case getTimezone e r of
              (evs, Inl err) \<Rightarrow> (evs, Some r)
            | (evs, Inr None) \<Rightarrow> (evs, None)
            | (evs, Inr (Some r1)) \<Rightarrow> (evs, Some (country_step e r1)))
      else ([], Some (country_step e r)))"

section \<open>Aggregate resolution\<close>

text \<open>
  What \<^verbatim>\<open>resolveLocationsInner\<close> does with one record that is new to the basket: the
  effects, the value it yields (or the error \<^verbatim>\<open>locationFromQuery\<close> throws) and the state
  in which it leaves the object the cascade had yielded.
\<close>

definition process_record :: "env \<Rightarrow> Loc \<Rightarrow> effect list \<times> (error + Loc option) \<times> Loc" where
  "process_record e r =
     (case enrich e r of
        (evs, res) \<Rightarrow>
          (case locationFromQuery e res of
             Inl err \<Rightarrow> (evs, Inl err, r)
           | Inr v \<Rightarrow> (evs, Inr v, case v of None \<Rightarrow> r | Some r' \<Rightarrow> r')))"

text \<open>
  One turn of the \<^verbatim>\<open>for await\<close> of \<^verbatim>\<open>resolveLocationsInner\<close> on the value \<open>v\<close> the
  cascade yielded, with the basket \<open>B\<close> of the \<^verbatim>\<open>id\<close>s seen.  \<open>k\<close> is the rest of the
  loop, given the state of the yielded object and the basket.
\<close>

definition inner_step ::
  "env \<Rightarrow> Loc option \<Rightarrow> string option list
     \<Rightarrow> (Loc \<Rightarrow> string option list \<Rightarrow> event list \<times> error option)
     \<Rightarrow> event list \<times> error option" where
  "inner_step e v B k =
     (case v of
        None \<Rightarrow> ([], None)
      | Some r \<Rightarrow>
          if id' r \<in> set B then k r B
          else (case process_record e r of
                  (evs, Inl err, r') \<Rightarrow> (map Did evs, Some err)
                | (evs, Inr out, r') \<Rightarrow>
                    (case k r' (id' r # B) of
                       (evs', t) \<Rightarrow> (map Did evs @ Yield out # evs', t))))"

primrec resolveLocationsInner_loop ::
  "env \<Rightarrow> gen \<Rightarrow> string option list \<Rightarrow> event list \<times> error option" where
  "resolveLocationsInner_loop e (Return t) = (\<lambda>B. ([], t))"
| "resolveLocationsInner_loop e (Effect ev g) =
     (\<lambda>B. case resolveLocationsInner_loop e g B of (evs, t) \<Rightarrow> (Did ev # evs, t))"
| "resolveLocationsInner_loop e (YieldShared r k) =
     (\<lambda>B. inner_step e (Some r) B (\<lambda>r'. resolveLocationsInner_loop e (k r')))"
| "resolveLocationsInner_loop e (YieldFresh v g) =
     (\<lambda>B. inner_step e v B (\<lambda>r'. resolveLocationsInner_loop e g))"

definition resolveLocationsInner :: "env \<Rightarrow> Loc option \<Rightarrow> event list \<times> error option" where
  "resolveLocationsInner e result =
     resolveLocationsInner_loop e (resolveLocation e (queryFromLocation e result)) []"

text \<open>\<^verbatim>\<open>resolveLocations\<close>, drained: its events and the error that ends it.  A canonical
  query has no \<^verbatim>\<open>fromCache\<close>, and \<^verbatim>\<open>query.fromCache\<close> of \<^verbatim>\<open>null\<close> throws.\<close>

definition resolveLocations :: "env \<Rightarrow> Loc option \<Rightarrow> event list \<times> error option" where
  "resolveLocations e result =
     (let query = queryFromLocation e result in
      case cache e of
        None \<Rightarrow> resolveLocationsInner e query
      | Some c \<Rightarrow>
          (case query of
             None \<Rightarrow> ([], Some TypeError)
           | Some q \<Rightarrow>
               if fromCache q = Some False then resolveLocationsInner e query
               else (case c (cacheKey e query) of
                       StoreFailure \<Rightarrow> ([Did (CacheGet (cacheKey e query))], Some CacheFailure)
                     | Found xs \<Rightarrow> (Did (CacheGet (cacheKey e query)) # map Yield xs, None)
                     | NotFound \<Rightarrow>
                         (case resolveLocationsInner e query of
                            (evs, Some err) \<Rightarrow> (Did (CacheGet (cacheKey e query)) # evs, Some err)
                          | (evs, None) \<Rightarrow>
                              (Did (CacheGet (cacheKey e query)) # evs
                                 @ [Did (CachePut (cacheKey e query) (yields_of evs))], None)))))"

section \<open>Notions used in the statements\<close>

text \<open>What a read of the cache for the query \<open>q\<close> gives (the list
  \<^verbatim>\<open>getLocationsFromCache\<close> returns, or the error it throws) and the effects of one read.\<close>

definition cached_records :: "env \<Rightarrow> Loc \<Rightarrow> error + Loc option list" where
  "cached_records e q =
     (case cache e of
        None \<Rightarrow> Inr []
      | Some c \<Rightarrow>
          (case c (cacheKey e (Some q)) of
             NotFound \<Rightarrow> Inr []
           | StoreFailure \<Rightarrow> Inl CacheFailure
           | Found xs \<Rightarrow> Inr xs))"

definition cache_effects :: "env \<Rightarrow> Loc \<Rightarrow> effect list" where
  "cache_effects e q =
     (case cache e of None \<Rightarrow> [] | Some c \<Rightarrow> [CacheGet (cacheKey e (Some q))])"

fun effects_then :: "effect list \<Rightarrow> gen \<Rightarrow> gen" where
  "effects_then [] g = g"
| "effects_then (x # xs) g = Effect x (effects_then xs g)"

text \<open>The narrow probe of a facet, for the facets that have one, and the condition under
  which the branch of a facet is taken.\<close>

fun narrow_probe :: "Loc \<Rightarrow> LocationResolvePriorities \<Rightarrow> Loc option" where
  "narrow_probe q P_id = Some (probe_id q)"
| "narrow_probe q P_location = Some q"
| "narrow_probe q P_googlePlaceId = None"
| "narrow_probe q P_address = Some (probe_address q)"
| "narrow_probe q P_locality = Some (probe_locality q)"
| "narrow_probe q P_administrativeLevel1 = Some (probe_administrativeLevel1 q)"
| "narrow_probe q P_administrativeLevel2 = Some (probe_administrativeLevel2 q)"
| "narrow_probe q P_country = Some (probe_country q)"
| "narrow_probe q P_ipAddress = None"

fun facet_applies :: "Loc \<Rightarrow> Loc \<Rightarrow> LocationResolvePriorities \<Rightarrow> bool" where
  "facet_applies q r P_id = (truthy (id' q) \<and> id' q = id' r)"
| "facet_applies q r P_location = (has_coordinates q \<and> location r = location q)"
| "facet_applies q r P_googlePlaceId = False"
| "facet_applies q r P_address = (truthy (address q) \<and> address r = address q)"
| "facet_applies q r P_locality = (truthy (locality q) \<and> locality r = locality q)"
| "facet_applies q r P_administrativeLevel1 =
     (truthy (administrativeLevel1 q) \<and> administrativeLevel1 r = administrativeLevel1 q)"
| "facet_applies q r P_administrativeLevel2 =
     (truthy (administrativeLevel2 q) \<and> administrativeLevel2 r = administrativeLevel2 q)"
| "facet_applies q r P_country = (truthy (country q) \<and> country r = country q)"
| "facet_applies q r P_ipAddress = False"

text \<open>A value of the cascade that is \<^verbatim>\<open>null\<close> or a record with an \<^verbatim>\<open>id\<close>.\<close>

definition has_id :: "Loc option \<Rightarrow> bool" where
  "has_id v = (case v of None \<Rightarrow> True | Some r \<Rightarrow> id' r \<noteq> None)"







text \<open>The query \<^verbatim>\<open>{ipAddress: ip}\<close>.\<close>

definition ip_query :: "string \<Rightarrow> Loc" where
  "ip_query ip = empty_loc\<lparr> ipAddress := Some ip \<rparr>"

section \<open>Test data\<close>

text \<open>A hash for the examples: the text of some fields of the canonical query.\<close>

definition hash0 :: "Loc option \<Rightarrow> string" where
  "hash0 q =
     (case q of
        None \<Rightarrow> ''null''
      | Some l \<Rightarrow>
          join ''|'' (map (\<lambda>v. case v of None \<Rightarrow> ''-'' | Some t \<Rightarrow> t)
            [u_id l, locality l, administrativeLevel1 l, administrativeLevel2 l, country l,
             address l, ipAddress l]))"

text \<open>A resolver with no cache, the default priorities, a provider and an IP database
  that fail, and empty country tables.\<close>

definition env0 :: env where
  "env0 = \<lparr> byIso_internet = (\<lambda>c. Null), hashKey = hash0, cache = None,
            resolvePriority = defaultResolvePriorities,
            google = (\<lambda>q. Inl UpstreamFailure), geoip_city = (\<lambda>i. Inl GeoIpFailure),
            countryData = (\<lambda>c. None), languageData = (\<lambda>l. None) \<rparr>"


text \<open>The canonical query of \<^verbatim>\<open>{id: "a"}\<close>, and the same with \<^verbatim>\<open>id\<close> changed to
  \<^verbatim>\<open>"b"\<close>.\<close>

definition query_a :: Loc where
  "query_a = empty_loc\<lparr> id' := Some ''a'', u_id := Some ''a'', resolveIpWithGeo := Some True \<rparr>"

definition query_b :: Loc where
  "query_b = query_a\<lparr> id' := Some ''b'' \<rparr>"

text \<open>A provider that answers every geocoding request with one result for the United
  States and every timezone request with the \<^verbatim>\<open>timeZoneId\<close> \<open>tz\<close>.\<close>

definition raw_us :: rawResult where
  "raw_us =
     \<lparr> geometry_location = Some (Some 38, Some (-97)),
       formatted_address = Some ''United States'', place_id = Some ''place-us'',
       address_components = Some
         [\<lparr> types = [''country'', ''political''],
             long_name = Some ''United States'', short_name = Some ''US'' \<rparr>] \<rparr>"

definition google_geo :: "string option \<Rightarrow> qs \<Rightarrow> error + googleData" where
  "google_geo tz request =
     (case request of
        QTimezone lat lng \<Rightarrow> Inr \<lparr> results = None, timeZoneId = tz \<rparr>
      | _ \<Rightarrow> Inr \<lparr> results = Some [raw_us], timeZoneId = None \<rparr>)"

definition env_geo :: "string option \<Rightarrow> env" where
  "env_geo tz =
     env0\<lparr> google := google_geo tz,
           byIso_internet := (\<lambda>c. if c = ''US'' then Str ''US'' else Null) \<rparr>"

definition us_query :: Loc where
  "us_query = empty_loc\<lparr> country := Some ''US'' \<rparr>"

text \<open>The record the provider's result becomes for the query \<^verbatim>\<open>{country: "US"}\<close>.\<close>

definition us_record :: Loc where
  "us_record =
     empty_loc\<lparr> id' := Some ''place-us'', u_id := Some ''place-us'', country := Some ''US'',
                location := Some (geoJSONFromLatLng [-97, 38]), region := Str ''us'',
                address := Some ''United States'', resolveIpWithGeo := Some True \<rparr>"

text \<open>A cache store that holds one record under the keys of the queries
  \<^verbatim>\<open>{locality: "Paris"}\<close> and \<^verbatim>\<open>{_id: "place-paris"}\<close>.\<close>

definition paris :: Loc where
  "paris =
     empty_loc\<lparr> id' := Some ''place-paris'', u_id := Some ''place-paris'',
                locality := Some ''Paris'', country := Some ''FR'',
                location := Some (geoJSONFromLatLng [2, 48]) \<rparr>"

definition store_paris :: "string \<Rightarrow> cache_reply" where
  "store_paris k =
     (if k = ''-|Paris|-|-|-|-|-'' \<or> k = ''place-paris|-|-|-|-|-|-''
      then Found [Some paris] else NotFound)"

definition env_paris :: env where
  "env_paris = env0\<lparr> cache := Some store_paris \<rparr>"

text \<open>An IP database that knows one address, and the country tables for its country.\<close>

definition geo_8888 :: geoRes where
  "geo_8888 =
     \<lparr> longitude = Some (-97), latitude = Some 37, geo_timezone = Some ''America/Chicago'',
       isoCode = Some ''US'', subdivision0 = None, subdivision1 = None, city_name = None \<rparr>"

definition env_ip :: env where
  "env_ip =
     env0\<lparr> geoip_city := (\<lambda>i. if i = Some ''8.8.8.8'' then Inr geo_8888 else Inl GeoIpFailure),
           countryData := (\<lambda>c. if c = ''US''
                                then Some \<lparr> cname = Some ''United States'', clanguages = [''en''],
                                            phone = Some ''1'' \<rparr>
                                else None),
           languageData := (\<lambda>l. if l = ''en'' then Some ''English'' else None) \<rparr>"

text \<open>The canonical query of \<^verbatim>\<open>{country: "US"}\<close> under \<open>env_geo\<close>, the canonical query
  of \<^verbatim>\<open>{id: "place-paris"}\<close>, and the record \<open>env_ip\<close> gives for \<^verbatim>\<open>8.8.8.8\<close>.\<close>

definition us_canonical :: Loc where
  "us_canonical =
     empty_loc\<lparr> country := Some ''US'', resolveIpWithGeo := Some True, region := Str ''us'' \<rparr>"

definition paris_id_query :: Loc where
  "paris_id_query =
     empty_loc\<lparr> id' := Some ''place-paris'', u_id := Some ''place-paris'',
                resolveIpWithGeo := Some True \<rparr>"

definition ip_8888_record :: Loc where
  "ip_8888_record =
     empty_loc\<lparr> id' := Some ''-|-|-|-|-|-|8.8.8.8'', u_id := Some ''-|-|-|-|-|-|8.8.8.8'',
                country := Some ''US'', location := Some (geoJSONFromLatLng [-97, 37]),
                address := Some ''United States'', ipAddress := Some ''8.8.8.8'',
                timezone := Some ''America/Chicago'', languages := Some [Some ''English''],
                countryName := Some ''United States'' \<rparr>"


text \<open>A raw result with the administrative levels 2 and 10.\<close>

definition raw_2_10 :: rawResult where
  "raw_2_10 =
     \<lparr> geometry_location = Some (Some 40, Some (-74)),
       formatted_address = None, place_id = None,
       address_components = Some
         [\<lparr> types = [''administrative_area_level_2'', ''political''],
             long_name = Some ''Two'', short_name = Some ''2'' \<rparr>,
          \<lparr> types = [''administrative_area_level_10'', ''political''],
             long_name = Some ''Ten'', short_name = Some ''10'' \<rparr>] \<rparr>"

section \<open>Properties of the labels\<close>

lemma filter_Boolean_eq: "filter_Boolean xs = map the (filter truthy xs)"
  by (induction xs rule: filter_Boolean.induct) (simp_all add: truthy_def)

text \<open>On an object the label is the one the specification describes, and nothing is
  thrown.\<close>

lemma LabelLocation_object:
  "LabelLocation (Some l) =
     Inr (let parts = map the (filter truthy
                 [if truthy (locality l) then locality l else administrativeLevel2 l,
                  administrativeLevel1 l, countryName l])
          in if parts \<noteq> [] then Some (join '', '' parts)
             else if truthy (address l) then address l else None)"
  by (simp add: LabelLocation_def filter_Boolean_eq or_str_def Let_def del: filter.simps)

lemma LabelLocationSafe_object:
  "LabelLocationSafe (Some l) =
     Inr (let parts = map the (filter truthy
                 [if truthy (locality l) then locality l else administrativeLevel2 l,
                  administrativeLevel1 l, countryName l])
          in if parts \<noteq> [] then join '', '' parts
             else if truthy (address l) then the (address l) else [])"
  by (simp add: LabelLocationSafe_def LabelLocation_object Let_def truthy_def
      split: option.splits del: filter.simps)

lemma LabelLocationSafe_total: "\<exists>s. LabelLocationSafe (Some l) = Inr s"
  by (simp add: LabelLocationSafe_object)

text \<open>
  C9.  The safe label is claimed never to throw, on \<^verbatim>\<open>null\<close> and \<^verbatim>\<open>undefined\<close> too.
  On \<^verbatim>\<open>null\<close> the first property read of \<^verbatim>\<open>LabelLocation\<close> throws a
  \<^verbatim>\<open>TypeError\<close>, which \<^verbatim>\<open>LabelLocationSafe\<close> does not catch.
\<close>

theorem LabelLocationSafe_null_throws: "LabelLocationSafe None = Inl TypeError"
  by (simp add: LabelLocationSafe_def LabelLocation_def)

section \<open>Properties of the canonicalizer\<close>

lemma LabelLocation_strip:
  "LabelLocation (Some (strip_query_fields l)) = LabelLocation (Some l)"
  by (simp add: LabelLocation_def strip_query_fields_def Let_def)

lemma LabelLocationSafe_strip:
  "LabelLocationSafe (Some (strip_query_fields l)) = LabelLocationSafe (Some l)"
  by (simp add: LabelLocationSafe_def LabelLocation_strip)

lemma lower_char_idem: "lower_char (lower_char c) = lower_char c"
  by (simp add: lower_char_def Let_def)

lemma toLowerCase_idem: "toLowerCase (toLowerCase s) = toLowerCase s"
  by (simp add: toLowerCase_def lower_char_idem)

lemma toLowerCase_Nil: "toLowerCase s = [] \<longleftrightarrow> s = []"
  by (simp add: toLowerCase_def)

lemma lower_region_idem: "lower_region (lower_region r) = lower_region r"
  by (cases r) (simp_all add: lower_region_def toLowerCase_idem toLowerCase_Nil)

lemma or_number_idem: "or_number (or_number a (Some 0)) (Some 0) = or_number a (Some 0)"
  by (simp add: or_number_def truthy_num_def split: option.splits)

lemma query_location_idem: "query_location (query_location g) = query_location g"
  by (simp add: query_location_def or_number_idem split: option.splits)

lemma or_str_idem: "or_str (or_str a b) (or_str a b) = or_str a b"
  by (simp add: or_str_def)

text \<open>Canonicalizing a canonical query changes nothing.\<close>

lemma queryFromLocation_obj_idem:
  "queryFromLocation_obj e (queryFromLocation_obj e l) = queryFromLocation_obj e l"
  apply (simp add: queryFromLocation_obj_def empty_loc_def query_location_idem or_str_idem)
  apply (simp add: query_region_def lower_region_idem split: option.splits)
  apply (auto simp: lower_region_def split: jsstr.splits)
  done

lemma queryFromLocation_idem:
  "queryFromLocation e (queryFromLocation e x) = queryFromLocation e x"
  by (cases x) (simp_all add: queryFromLocation_def queryFromLocation_obj_idem)

lemma locationFromQuery_obj_eq:
  "LabelLocationSafe (Some l) = Inr lbl \<Longrightarrow>
   locationFromQuery_obj e l =
     Inr (l\<lparr> location := set_point (strip_distance (location l)), fromCache := None,
            ipAddress := None, resolveIpWithGeo := None, safeLabel := Some lbl \<rparr>)"
  by (simp add: locationFromQuery_obj_def Let_def LabelLocationSafe_strip)
     (simp add: strip_query_fields_def)




section \<open>Properties of the cache key\<close>

text \<open>
  C6 (as stated).  Changing a single field value of a canonical query is claimed to change
  the key.  \<open>query_a\<close> is canonical; changing its \<^verbatim>\<open>id\<close> from \<^verbatim>\<open>"a"\<close> to \<^verbatim>\<open>"b"\<close> gives a
  different query with the same key under every encoder, since \<^verbatim>\<open>cacheKey\<close> canonicalizes
  again and \<^verbatim>\<open>_id || id\<close> reads \<^verbatim>\<open>_id\<close> first.
\<close>

theorem cacheKey_ignores_id_change:
  "\<forall>e. queryFromLocation e (Some query_a) = Some query_a
       \<and> query_b \<noteq> query_a
       \<and> id' query_b \<noteq> id' query_a
       \<and> cacheKey e (Some query_b) = cacheKey e (Some query_a)"
  by (simp add: cacheKey_def queryFromLocation_def queryFromLocation_obj_def query_a_def query_b_def empty_loc_def
      or_str_def truthy_def query_location_def query_region_def lower_region_def)

text \<open>
  C6 (amended).  The key is a function of the canonical query alone: two inputs with the
  same canonical query have the same key, an input has the key of its canonical query,
  and so a change of the input that leaves the canonical query as it was leaves the key
  as it was.  (The input's properties are read by name and the canonical object is
  built from one literal, so the order in which the input's fields were inserted is not
  seen.)  That different canonical queries get different keys is left to the encoder's
  hash.
\<close>

theorem cacheKey_canonical:
  assumes "queryFromLocation e a = queryFromLocation e b"
  shows "cacheKey e a = cacheKey e b
         \<and> cacheKey e (queryFromLocation e a) = cacheKey e a"
  using assms by (simp add: cacheKey_def queryFromLocation_idem)

theorem cacheKey_canonical_witness:
  "queryFromLocation env0 (Some (empty_loc\<lparr> region := Str ''US'' \<rparr>))
     = queryFromLocation env0 (Some (empty_loc\<lparr> region := Str ''us'' \<rparr>))
   \<and> cacheKey env0 (Some (empty_loc\<lparr> region := Str ''US'' \<rparr>))
     = cacheKey env0 (Some (empty_loc\<lparr> region := Str ''us'' \<rparr>))"
proof -
  have h: "queryFromLocation env0 (Some (empty_loc\<lparr> region := Str ''US'' \<rparr>))
     = queryFromLocation env0 (Some (empty_loc\<lparr> region := Str ''us'' \<rparr>))"
    by (simp add: queryFromLocation_def queryFromLocation_obj_def empty_loc_def query_region_def lower_region_def
        toLowerCase_def lower_char_def Let_def char_of_def bit_iff_odd)
  from cacheKey_canonical [OF h] h show ?thesis by simp
qed

section \<open>Properties of the response normalizer\<close>

text \<open>On levels of one digit the default sort is the numeric sort.\<close>

lemma str_less_one_digit:
  "n < 10 \<Longrightarrow> m < 10 \<Longrightarrow> str_less (String_of (Num n)) (String_of (Num m)) \<longleftrightarrow> n < m"
  by (simp add: String_of_def)

lemma insert_sorted_one_digit:
  "n < 10 \<Longrightarrow> list_all (\<lambda>k. k < 10) ns \<Longrightarrow>
   insert_sorted (Num n) (map Num ns) = map Num (insort n ns)"
  by (induction ns) (auto simp: str_less_one_digit)

lemma sort_default_one_digit:
  "list_all (\<lambda>k. k < 10) ns \<Longrightarrow> sort_default (map Num ns) = map Num (sort ns)"
proof (induction ns)
  case Nil
  show ?case by (simp add: sort_default_def)
next
  case (Cons n ns)
  have "list_all (\<lambda>k. k < 10) (sort ns)"
    using Cons.prems by (simp add: list_all_iff)
  then show ?case
    using Cons by (simp add: sort_default_def sort_key_def insert_sorted_one_digit)
qed

text \<open>The default sort compares the texts of the numbers, so 10 comes before 2.\<close>

lemma lowestLevels_2_10:
  "lowestLevels [(Num 2, Some ''Two''), (Num 10, Some ''Ten'')] = [Num 10, Num 2]"
  by code_simp

text \<open>
  C8.  The normalizer is claimed to take \<^verbatim>\<open>administrativeLevel1\<close> from the numerically
  lowest level and \<^verbatim>\<open>administrativeLevel2\<close> from the second lowest, also when levels
  have two digits.  For a raw result with the levels 2 and 10 the code takes
  \<^verbatim>\<open>administrativeLevel1\<close> from level 10 and \<^verbatim>\<open>administrativeLevel2\<close> from level 2.
\<close>

theorem processGoogleResponse_levels_2_10:
  "map (\<lambda>r. (administrativeLevel1 r, administrativeLevel2 r))
     (fst (processGoogleResponse env0 None \<lparr> results = Some [raw_2_10], timeZoneId = None \<rparr>))
   = [(Some ''Ten'', Some ''Two'')]"
  by code_simp

section \<open>Properties of generators and of the cache adapter\<close>

lemma truthy_None [simp]: "\<not> truthy None"
  by (simp add: truthy_def)

lemma truthy_Some [simp]: "truthy (Some s) \<longleftrightarrow> s \<noteq> []"
  by (simp add: truthy_def)

lemma trace_effects_then: "trace (effects_then xs g) = map Did xs @ trace g"
  by (induction xs) simp_all

lemma outcome_effects_then: "outcome (effects_then xs g) = outcome g"
  by (induction xs) simp_all

lemma trace_yield_all: "trace (yield_all xs g) = map Yield xs @ trace g"
  by (induction xs) simp_all

lemma outcome_yield_all: "outcome (yield_all xs g) = outcome g"
  by (induction xs) simp_all


lemma getLocationsFromCache_eq:
  "getLocationsFromCache e q k =
     effects_then (cache_effects e q)
       (case cached_records e q of Inl err \<Rightarrow> Return (Some err) | Inr xs \<Rightarrow> k xs)"
  by (simp add: getLocationsFromCache_def cache_effects_def cached_records_def
      split: option.splits cache_reply.splits)

lemma cached_or_hit:
  "cached_records e q = Inr xs \<Longrightarrow> xs \<noteq> [] \<Longrightarrow>
   cached_or e q live =
     effects_then (cache_effects e q)
       (effects_then (cache_effects e q) (yield_all xs (Return None)))"
  by (simp add: cached_or_def getLocationsFromCacheCount_def getLocationsFromCache_eq)

lemma cached_or_miss:
  "cached_records e q = Inr [] \<Longrightarrow>
   cached_or e q live = effects_then (cache_effects e q) live"
  by (simp add: cached_or_def getLocationsFromCacheCount_def getLocationsFromCache_eq)

lemma cached_or_no_cache: "cache e = None \<Longrightarrow> cached_or e q live = live"
  by (simp add: cached_or_def getLocationsFromCacheCount_def getLocationsFromCache_def)

lemma run_google_ok:
  "google e request = Inr d \<Longrightarrow> processGoogleResponse e (Some q) d = (ys, None) \<Longrightarrow>
   run_google e q request k = Effect (GoogleRequest request) (yield_all (map Some ys) k)"
  by (simp add: run_google_def)

lemma trace_run_google_ok:
  "google e request = Inr d \<Longrightarrow> processGoogleResponse e (Some q) d = (ys, None) \<Longrightarrow>
   trace (run_google e q request k)
     = Did (GoogleRequest request) # map (Yield \<circ> Some) ys @ trace k"
  by (simp add: run_google_def trace_yield_all)

section \<open>Properties of the cascade\<close>

lemma facet_skip:
  "location result = None \<Longrightarrow> \<not> truthy (ipAddress query) \<Longrightarrow> \<not> query_has query p \<Longrightarrow>
   facet e query result p k = k result"
  by (simp add: facet_def)

lemma facet_country:
  "truthy (country query) \<Longrightarrow> country result = country query \<Longrightarrow>
   facet e query result P_country k =
     cached_or e (probe_country query) (resolveLocationByAddressComponents e result (k result))"
  by (simp add: facet_def)

lemma facet_id:
  "truthy (id' query) \<Longrightarrow> id' query = id' result \<Longrightarrow>
   facet e query result P_id k =
     cached_or e (probe_id query) (resolveLocationByPlaceId e result (k result))"
  by (auto simp: facet_def)

text \<open>A facet whose branch is taken and whose probe finds records in the cache reads
  the cache twice, yields the records and ends the generator, whatever the rest of the
  loop is.\<close>

lemma facet_cache_hit:
  assumes "facet_applies query result p" and "narrow_probe query p = Some q"
    and "cached_records e q = Inr xs" and "xs \<noteq> []"
  shows "facet e query result p k =
           effects_then (cache_effects e q)
             (effects_then (cache_effects e q) (yield_all xs (Return None)))"
  using assms
  by (cases p) (auto simp: facet_def cached_or_hit has_coordinates_def split: option.splits)

lemma queryFromLocation_obj_locality_only:
  "queryFromLocation_obj e (empty_loc\<lparr> locality := Some c \<rparr>)
     = empty_loc\<lparr> locality := Some c, resolveIpWithGeo := Some True \<rparr>"
  by (simp add: queryFromLocation_obj_def empty_loc_def query_location_def or_str_def
      query_region_def lower_region_def)

lemma probe_locality_only:
  "probe_locality (empty_loc\<lparr> locality := Some c, resolveIpWithGeo := Some True \<rparr>)
     = empty_loc\<lparr> locality := Some c \<rparr>"
  by (simp add: probe_locality_def empty_loc_def keep_def)

lemma locality_only_cache_hit:
  assumes "c \<noteq> []" and "resolvePriority e = defaultResolvePriorities"
    and "cached_records e (empty_loc\<lparr> locality := Some c \<rparr>) = Inr xs" and "xs \<noteq> []"
  shows "resolveLocation e (Some (empty_loc\<lparr> locality := Some c \<rparr>)) =
           effects_then (cache_effects e (empty_loc\<lparr> locality := Some c \<rparr>))
             (effects_then (cache_effects e (empty_loc\<lparr> locality := Some c \<rparr>))
                (yield_all xs (Return None)))"
proof -
  let ?r = "empty_loc\<lparr> locality := Some c \<rparr>"
  let ?q = "empty_loc\<lparr> locality := Some c, resolveIpWithGeo := Some True \<rparr>"
  have skip: "\<And>p k. p \<in> {P_ipAddress, P_id, P_location, P_googlePlaceId, P_address} \<Longrightarrow>
                 facet e ?q ?r p k = k ?r"
    by (rule facet_skip) (auto simp: empty_loc_def)
  have hit: "\<And>k. facet e ?q ?r P_locality k =
           effects_then (cache_effects e ?r)
             (effects_then (cache_effects e ?r) (yield_all xs (Return None)))"
    by (rule facet_cache_hit [where q = ?r])
       (use assms in \<open>auto simp: probe_locality_only\<close>)
  show ?thesis
    by (simp add: resolveLocation_def queryFromLocation_obj_locality_only assms(2)
        defaultResolvePriorities_def skip hit)
qed

text \<open>
  C3.  For every facet that has a narrow probe: when the facet's branch is taken and
  the probe finds at least one record in the cache, the cascade consists of the two reads
  of the cache followed by the cached records, and then ends: neither the facet's
  strategy nor any later facet \<open>ps\<close> contributes an effect or a record.  In particular a
  locality-only query whose narrow entry is in the cache resolves, under the default
  priorities, to the cached records with no request to the provider.
\<close>

theorem cache_hit_ends_cascade:
  assumes "cached_records e q = Inr xs" and "xs \<noteq> []"
  shows "(facet_applies query result p \<and> narrow_probe query p = Some q \<longrightarrow>
            resolveLocation_loop e query (p # ps) result =
              effects_then (cache_effects e q)
                (effects_then (cache_effects e q) (yield_all xs (Return None)))
            \<and> trace (resolveLocation_loop e query (p # ps) result) =
                map Did (cache_effects e q @ cache_effects e q) @ map Yield xs
            \<and> outcome (resolveLocation_loop e query (p # ps) result) = None)
       \<and> (c \<noteq> [] \<and> resolvePriority e = defaultResolvePriorities
            \<and> q = empty_loc\<lparr> locality := Some c \<rparr> \<longrightarrow>
            trace (resolveLocation e (Some (empty_loc\<lparr> locality := Some c \<rparr>))) =
              map Did (cache_effects e q @ cache_effects e q) @ map Yield xs
            \<and> outcome (resolveLocation e (Some (empty_loc\<lparr> locality := Some c \<rparr>))) = None)"
proof (intro conjI impI)
  assume a: "facet_applies query result p \<and> narrow_probe query p = Some q"
  then show g: "resolveLocation_loop e query (p # ps) result =
      effects_then (cache_effects e q)
        (effects_then (cache_effects e q) (yield_all xs (Return None)))"
    using assms by (simp add: facet_cache_hit)
  show "trace (resolveLocation_loop e query (p # ps) result) =
          map Did (cache_effects e q @ cache_effects e q) @ map Yield xs"
    unfolding g by (simp add: trace_effects_then trace_yield_all)
  show "outcome (resolveLocation_loop e query (p # ps) result) = None"
    unfolding g by (simp add: outcome_effects_then outcome_yield_all)
next
  assume b: "c \<noteq> [] \<and> resolvePriority e = defaultResolvePriorities
            \<and> q = empty_loc\<lparr> locality := Some c \<rparr>"
  then have g: "resolveLocation e (Some (empty_loc\<lparr> locality := Some c \<rparr>)) =
           effects_then (cache_effects e q) (effects_then (cache_effects e q)
                (yield_all xs (Return None)))"
    using assms locality_only_cache_hit [of c e xs] by simp
  show "trace (resolveLocation e (Some (empty_loc\<lparr> locality := Some c \<rparr>))) =
          map Did (cache_effects e q @ cache_effects e q) @ map Yield xs"
    unfolding g by (simp add: trace_effects_then trace_yield_all)
  show "outcome (resolveLocation e (Some (empty_loc\<lparr> locality := Some c \<rparr>))) = None"
    unfolding g by (simp add: outcome_effects_then outcome_yield_all)
qed

lemma facet_id_miss:
  assumes "truthy (id' query)" and "id' query = id' result"
    and "cached_records e (probe_id query) = Inr []"
  shows "facet e query result P_id k =
           effects_then (cache_effects e (probe_id query))
             (resolveLocationByPlaceId e result (k result))"
  using assms by (auto simp: facet_def cached_or_miss)

text \<open>
  C2 (amended).  When the identifier facet runs and its probe finds records in the cache,
  the cascade yields them and ends.  When the probe finds nothing and the live place-id
  lookup yields its records, the cascade goes on with the remaining facets \<open>ps\<close>: its
  events are the probe, the request, the records and then the events of the rest of the
  loop.
\<close>

theorem id_facet_breaks_on_cache_hit_only:
  assumes "truthy (id' query)" and "id' query = id' result"
  shows "(cached_records e (probe_id query) = Inr xs \<and> xs \<noteq> [] \<longrightarrow>
            trace (resolveLocation_loop e query (P_id # ps) result) =
              map Did (cache_effects e (probe_id query) @ cache_effects e (probe_id query))
                @ map Yield xs
            \<and> outcome (resolveLocation_loop e query (P_id # ps) result) = None)
       \<and> (cached_records e (probe_id query) = Inr []
            \<and> google e (placeId_request (queryFromLocation_obj e result)) = Inr d
            \<and> processGoogleResponse e (Some (queryFromLocation_obj e result)) d = (ys, None) \<longrightarrow>
            trace (resolveLocation_loop e query (P_id # ps) result) =
              map Did (cache_effects e (probe_id query))
                @ Did (GoogleRequest (placeId_request (queryFromLocation_obj e result)))
                # map (Yield \<circ> Some) ys
                @ trace (resolveLocation_loop e query ps result))"
proof (intro conjI impI)
  assume h: "cached_records e (probe_id query) = Inr xs \<and> xs \<noteq> []"
  have g: "resolveLocation_loop e query (P_id # ps) result =
      effects_then (cache_effects e (probe_id query))
        (effects_then (cache_effects e (probe_id query)) (yield_all xs (Return None)))"
    using assms h by (simp add: facet_cache_hit [where q = "probe_id query" and xs = xs])
  show "trace (resolveLocation_loop e query (P_id # ps) result) =
          map Did (cache_effects e (probe_id query) @ cache_effects e (probe_id query))
            @ map Yield xs"
    unfolding g by (simp add: trace_effects_then trace_yield_all)
  show "outcome (resolveLocation_loop e query (P_id # ps) result) = None"
    unfolding g by (simp add: outcome_effects_then outcome_yield_all)
next
  assume h: "cached_records e (probe_id query) = Inr []
            \<and> google e (placeId_request (queryFromLocation_obj e result)) = Inr d
            \<and> processGoogleResponse e (Some (queryFromLocation_obj e result)) d = (ys, None)"
  have g: "resolveLocation_loop e query (P_id # ps) result =
      effects_then (cache_effects e (probe_id query))
        (resolveLocationByPlaceId e result (resolveLocation_loop e query ps result))"
    using assms h by (simp add: facet_id_miss)
  show "trace (resolveLocation_loop e query (P_id # ps) result) =
              map Did (cache_effects e (probe_id query))
                @ Did (GoogleRequest (placeId_request (queryFromLocation_obj e result)))
                # map (Yield \<circ> Some) ys
                @ trace (resolveLocation_loop e query ps result)"
    unfolding g using h
    by (simp add: trace_effects_then resolveLocationByPlaceId_def Let_def trace_run_google_ok)
qed

subsection \<open>A query that holds an IP address only\<close>

lemma queryFromLocation_obj_ip_only:
  "queryFromLocation_obj e (ip_query ip)
     = empty_loc\<lparr> ipAddress := Some ip, resolveIpWithGeo := Some True \<rparr>"
  by (simp add: queryFromLocation_obj_def empty_loc_def query_location_def or_str_def
      query_region_def lower_region_def ip_query_def)

text \<open>Once the argument object has an \<^verbatim>\<open>id\<close>, no branch of the loop is taken any more:
  the canonical query has none of the other facets and its \<^verbatim>\<open>id\<close> is \<^verbatim>\<open>undefined\<close>.\<close>

lemma facet_ip_only_done:
  assumes "id' r \<noteq> None"
  shows "facet e (empty_loc\<lparr> ipAddress := Some ip, resolveIpWithGeo := Some True \<rparr>) r p k = k r"
  using assms by (cases p) (auto simp: facet_def empty_loc_def has_coordinates_def)

lemma loop_ip_only_done:
  "id' r \<noteq> None \<Longrightarrow>
   resolveLocation_loop e (empty_loc\<lparr> ipAddress := Some ip, resolveIpWithGeo := Some True \<rparr>) ps r
     = Return None"
  by (induction ps) (simp_all add: facet_ip_only_done)

lemma facet_ip_only_other:
  assumes "p \<noteq> P_ipAddress"
  shows "facet e (empty_loc\<lparr> ipAddress := Some ip, resolveIpWithGeo := Some True \<rparr>) r p k = k r"
  using assms by (cases p) (auto simp: facet_def empty_loc_def has_coordinates_def)

lemma ip_record_total: "\<exists>out. ip_record e r g = Inr out"
proof -
  obtain a where "LabelLocation
                (Some (empty_loc\<lparr> locality := city_name g, administrativeLevel1 := subdivision0 g,
                                  administrativeLevel2 := subdivision1 g,
                                  countryName := (case (case isoCode g of None \<Rightarrow> None
                        | Some c \<Rightarrow> if c = [] then None else countryData e c) of None \<Rightarrow> None
                        | Some ci \<Rightarrow> cname ci) \<rparr>)) = Inr a"
    by (simp add: LabelLocation_object)
  then show ?thesis by (simp add: ip_record_def Let_def)
qed

lemma ip_record_id:
  "ip_record e r g = Inr out \<Longrightarrow>
   id' out = Some (cacheKey e (Some (queryFromLocation_obj e r)))
   \<and> u_id out = Some (cacheKey e (Some (queryFromLocation_obj e r)))"
  by (auto simp: ip_record_def Let_def split: sum.splits)

lemma loop_ip_only_first:
  assumes "ip \<noteq> []" and "geoip_city e (Some ip) = Inr g"
    and "ip_record e (ip_query ip) g = Inr out" and "P_ipAddress \<in> set ps"
  shows "trace (resolveLocation_loop e
            (empty_loc\<lparr> ipAddress := Some ip, resolveIpWithGeo := Some True \<rparr>) ps (ip_query ip))
           = [Did (GeoIpLookup (Some ip)), Yield (Some out)]
       \<and> outcome (resolveLocation_loop e
            (empty_loc\<lparr> ipAddress := Some ip, resolveIpWithGeo := Some True \<rparr>) ps (ip_query ip))
           = None
       \<and> first_of (resolveLocation_loop e
            (empty_loc\<lparr> ipAddress := Some ip, resolveIpWithGeo := Some True \<rparr>) ps (ip_query ip))
           = ([GeoIpLookup (Some ip)], Inr (Some out))"
  using assms(4)
proof (induction ps)
  case Nil
  then show ?case by simp
next
  case (Cons p ps)
  show ?case
  proof (cases "p = P_ipAddress")
    case True
    have idout: "id' out \<noteq> None" using ip_record_id [OF assms(3)] by simp
    have "facet e (empty_loc\<lparr> ipAddress := Some ip, resolveIpWithGeo := Some True \<rparr>)
            (ip_query ip) P_ipAddress k
          = Effect (GeoIpLookup (Some ip)) (YieldShared out k)" for k
      using assms(1,2,3)
      by (simp add: facet_def resolveLocationByIpAddress_def queryFromLocation_obj_ip_only Let_def)
         (simp add: empty_loc_def ip_query_def)
    then show ?thesis using True idout by (simp add: loop_ip_only_done)
  next
    case False
    then have "P_ipAddress \<in> set ps" using Cons.prems by simp
    then show ?thesis using Cons.IH False by (simp add: facet_ip_only_other)
  qed
qed

text \<open>
  C7.  For the query \<^verbatim>\<open>{ipAddress: ip}\<close> with a non-empty \<open>ip\<close> that the IP database knows,
  and a priority list that holds the IP facet: the cascade looks the address up in the
  IP database, yields exactly one record and ends without an error; the record is the one
  \<^verbatim>\<open>resolveLocationByIpAddress\<close> builds from the database entry and the country tables;
  its \<^verbatim>\<open>id\<close> and \<^verbatim>\<open>_id\<close> are the cache key of the canonical query; and no request to the
  provider and no read of the cache is among the events.  \<^verbatim>\<open>resolveOneLocation\<close> returns
  that record after the one lookup.
\<close>

theorem ip_only_query_one_record:
  assumes "ip \<noteq> []" and "geoip_city e (Some ip) = Inr g"
    and "P_ipAddress \<in> set (resolvePriority e)"
  shows "\<exists>out. ip_record e (ip_query ip) g = Inr out
           \<and> id' out = Some (cacheKey e (queryFromLocation e (Some (ip_query ip))))
           \<and> u_id out = Some (cacheKey e (queryFromLocation e (Some (ip_query ip))))
           \<and> trace (resolveLocation e (Some (ip_query ip)))
               = [Did (GeoIpLookup (Some ip)), Yield (Some out)]
           \<and> outcome (resolveLocation e (Some (ip_query ip))) = None
           \<and> resolveOneLocation e (Some (ip_query ip)) = ([GeoIpLookup (Some ip)], Inr (Some out))"
proof -
  obtain out where out: "ip_record e (ip_query ip) g = Inr out"
    using ip_record_total by blast
  note ids = ip_record_id [OF out]
  note run = loop_ip_only_first [OF assms(1,2) out assms(3)]
  show ?thesis
    using out ids run
    by (simp add: resolveLocation_def resolveOneLocation_def queryFromLocation_obj_ip_only
        queryFromLocation_def)
qed

subsection \<open>Single-result resolution\<close>


section \<open>Properties of aggregate resolution\<close>

lemma locationFromQuery_total: "\<exists>v. locationFromQuery e res = Inr v"
proof (cases res)
  case None
  then show ?thesis by (simp add: locationFromQuery_def)
next
  case (Some l)
  obtain lbl where "LabelLocationSafe (Some l) = Inr lbl"
    using LabelLocationSafe_total by blast
  then show ?thesis using Some by (simp add: locationFromQuery_def locationFromQuery_obj_eq)
qed

text \<open>No error of the enrichment leaves \<^verbatim>\<open>resolveLocationsInner\<close>: every record that is
  new to the basket leads to a value being yielded.\<close>

lemma process_record_total: "\<exists>evs out r'. process_record e r = (evs, Inr out, r')"
proof -
  obtain evs res where er: "enrich e r = (evs, res)" by (cases "enrich e r")
  obtain v where "locationFromQuery e res = Inr v" using locationFromQuery_total by blast
  then show ?thesis using er by (simp add: process_record_def)
qed

lemma inner_null_stops:
  "resolveLocationsInner_loop e (yield_all (ys @ None # zs) g) B
     = resolveLocationsInner_loop e (yield_all ys (Return None)) B"
proof (induction ys arbitrary: B)
  case Nil
  show ?case by (simp add: inner_step_def)
next
  case (Cons y ys)
  have "resolveLocationsInner_loop e (yield_all (ys @ None # zs) g)
          = resolveLocationsInner_loop e (yield_all ys (Return None))"
    using Cons.IH by (intro ext)
  then show ?case by simp
qed

lemma inner_step_cong_basket:
  assumes "\<And>r' B'. None \<in> set B' \<Longrightarrow> k r' B' = k' r' B'" and "None \<in> set B"
  shows "inner_step e v B k = inner_step e v B k'"
  using assms by (simp add: inner_step_def split: option.splits prod.splits sum.splits)

lemma inner_drops_idless:
  "None \<in> set B \<Longrightarrow>
   resolveLocationsInner_loop e (yield_all xs g) B
     = resolveLocationsInner_loop e (yield_all (filter has_id xs) g) B"
proof (induction xs arbitrary: B)
  case Nil
  show ?case by simp
next
  case (Cons x xs)
  show ?case
  proof (cases "has_id x")
    case True
    have "inner_step e x B (\<lambda>r'. resolveLocationsInner_loop e (yield_all xs g))
        = inner_step e x B (\<lambda>r'. resolveLocationsInner_loop e (yield_all (filter has_id xs) g))"
      by (rule inner_step_cong_basket) (use Cons in auto)
    then show ?thesis using True by simp
  next
    case False
    then obtain r where x: "x = Some r" and idr: "id' r = None"
      by (auto simp: has_id_def split: option.splits)
    have "resolveLocationsInner_loop e (yield_all (x # xs) g) B
            = resolveLocationsInner_loop e (yield_all xs g) B"
      using Cons.prems x idr by (simp add: inner_step_def)
    then show ?thesis using False Cons by simp
  qed
qed

text \<open>For a sequence of values yielded back to back: the first record without an
  \<^verbatim>\<open>id\<close> is processed, and the rest is aggregated as if every later such record had been
  removed; a \<^verbatim>\<open>null\<close> ends the aggregation.\<close>

lemma idless_first_of_sequence:
  assumes "id' r = None" and "None \<notin> set B"
  shows "(\<exists>evs out r'. process_record e r = (evs, Inr out, r')
           \<and> resolveLocationsInner_loop e (yield_all (Some r # xs) g) B
               = (map Did evs @ Yield out
                    # fst (resolveLocationsInner_loop e (yield_all (filter has_id xs) g) (None # B)),
                  snd (resolveLocationsInner_loop e (yield_all (filter has_id xs) g) (None # B))))
       \<and> resolveLocationsInner_loop e (yield_all (ys @ None # zs) g) B
           = resolveLocationsInner_loop e (yield_all ys (Return None)) B"
proof -
  obtain evs out r' where pr: "process_record e r = (evs, Inr out, r')"
    using process_record_total by blast
  have "resolveLocationsInner_loop e (yield_all xs g) (None # B)
          = resolveLocationsInner_loop e (yield_all (filter has_id xs) g) (None # B)"
    by (rule inner_drops_idless) simp
  then have "resolveLocationsInner_loop e (yield_all (Some r # xs) g) B
               = (map Did evs @ Yield out
                    # fst (resolveLocationsInner_loop e (yield_all (filter has_id xs) g) (None # B)),
                  snd (resolveLocationsInner_loop e (yield_all (filter has_id xs) g) (None # B)))"
    using assms pr by (simp add: inner_step_def split: prod.splits)
  then show ?thesis
    using pr inner_null_stops by blast
qed

subsection \<open>Deduplication over every cascade\<close>









section \<open>The examples, evaluated\<close>

lemma toLowerCase_US: "toLowerCase ''US'' = ''us''"
  by code_simp

lemma canonical_us [simp]: "queryFromLocation_obj (env_geo tz) us_query = us_canonical"
  by (simp add: queryFromLocation_obj_def us_query_def env_geo_def env0_def empty_loc_def
      query_location_def or_str_def query_region_def lower_region_def toLowerCase_US
      us_canonical_def)

lemma canonical_us_idem [simp]: "queryFromLocation_obj (env_geo tz) us_canonical = us_canonical"
  using queryFromLocation_obj_idem [of "env_geo tz" us_query] by simp

lemma canonical_us_id [simp]:
  "queryFromLocation_obj (env_geo tz) (us_query\<lparr> id' := Some ''p'' \<rparr>)
     = us_canonical\<lparr> id' := Some ''p'', u_id := Some ''p'' \<rparr>"
  by (simp add: queryFromLocation_obj_def us_query_def env_geo_def env0_def empty_loc_def
      query_location_def or_str_def query_region_def lower_region_def toLowerCase_US
      us_canonical_def)

lemma canonical_us_id_idem [simp]:
  "queryFromLocation_obj (env_geo tz) (us_canonical\<lparr> id' := Some ''p'', u_id := Some ''p'' \<rparr>)
     = us_canonical\<lparr> id' := Some ''p'', u_id := Some ''p'' \<rparr>"
  using queryFromLocation_obj_idem [of "env_geo tz" "us_query\<lparr> id' := Some ''p'' \<rparr>"] by simp

lemma process_raw_us:
  "process_raw (env_geo None) (Some us_canonical) raw_us = Inr us_record"
  "process_raw (env_geo (Some ''America/Chicago'')) (Some us_canonical) raw_us = Inr us_record"
  "process_raw (env_geo None) (Some (us_canonical\<lparr> id' := Some ''p'', u_id := Some ''p'' \<rparr>)) raw_us
     = Inr us_record"
  by code_simp+

lemma components_us:
  "join ''|'' (map component_text (assembleAddressComponents (env_geo None) us_canonical))
     = ''country:US''"
  "join ''|'' (map component_text
      (assembleAddressComponents (env_geo (Some ''America/Chicago'')) us_canonical))
     = ''country:US''"
  "join ''|'' (map component_text
      (assembleAddressComponents (env_geo None)
         (us_canonical\<lparr> id' := Some ''p'', u_id := Some ''p'' \<rparr>)))
     = ''country:US''"
  by code_simp+

lemma process_record_us_null:
  "process_record (env_geo None) us_record
     = ([GoogleRequest (QTimezone (Some 38) (Some (-97)))], Inr None, us_record)"
  by code_simp


lemma env_geo_simps [simp]:
  "cache (env_geo tz) = None"
  "resolvePriority (env_geo tz) = defaultResolvePriorities"
  "google (env_geo tz) = google_geo tz"
  by (simp_all add: env_geo_def env0_def)

lemma us_fields [simp]:
  "location us_query = None" "country us_query = Some ''US''" "id' us_query = None"
  "ipAddress us_canonical = None" "id' us_canonical = None" "location us_canonical = None"
  "address us_canonical = None" "locality us_canonical = None"
  "administrativeLevel1 us_canonical = None" "administrativeLevel2 us_canonical = None"
  "country us_canonical = Some ''US''" "region us_canonical = Str ''us''"
  "u_id us_canonical = None"
  by (simp_all add: us_query_def us_canonical_def empty_loc_def)

lemma components_strategy_us:
  assumes "queryFromLocation_obj (env_geo tz) r = q"
    and "region q = Str ''us''"
    and "join ''|'' (map component_text (assembleAddressComponents (env_geo tz) q)) = ''country:US''"
    and "process_raw (env_geo tz) (Some q) raw_us = Inr out"
  shows "resolveLocationByAddressComponents (env_geo tz) r k =
           Effect (GoogleRequest (QComponents (Str ''us'') ''country:US''))
             (YieldFresh (Some out) k)"
  using assms
  by (simp add: resolveLocationByAddressComponents_def Let_def
      run_google_ok [where d = "\<lparr> results = Some [raw_us], timeZoneId = None \<rparr>" and ys = "[out]"]
      google_geo_def processGoogleResponse_def)

lemma cascade_us:
  assumes "join ''|'' (map component_text (assembleAddressComponents (env_geo tz) us_canonical))
             = ''country:US''"
    and "process_raw (env_geo tz) (Some us_canonical) raw_us = Inr us_record"
  shows "resolveLocation (env_geo tz) (Some us_query) =
     Effect (GoogleRequest (QComponents (Str ''us'') ''country:US''))
       (YieldFresh (Some us_record) (Return None))"
    and "resolveLocation (env_geo tz) (Some us_canonical) =
     Effect (GoogleRequest (QComponents (Str ''us'') ''country:US''))
       (YieldFresh (Some us_record) (Return None))"
  by (simp_all add: resolveLocation_def defaultResolvePriorities_def facet_skip facet_country
      cached_or_no_cache components_strategy_us [OF _ _ assms])

lemma us_record_id [simp]: "id' us_record = Some ''place-us''"
  by (simp add: us_record_def empty_loc_def)

lemma resolveLocations_us_null:
  "resolveLocations (env_geo None) (Some us_query) =
     ([Did (GoogleRequest (QComponents (Str ''us'') ''country:US'')),
       Did (GoogleRequest (QTimezone (Some 38) (Some (-97)))),
       Yield None], None)"
  by (simp add: resolveLocations_def resolveLocationsInner_def queryFromLocation_def
      cascade_us(2) [OF components_us(1) process_raw_us(1)] inner_step_def
      process_record_us_null)




text \<open>
  C4.  A record is claimed to be yielded unchanged when the timezone lookup succeeds
  without a \<^verbatim>\<open>timeZoneId\<close>.  For the query \<^verbatim>\<open>{country: "US"}\<close> and a provider whose
  timezone reply has no \<^verbatim>\<open>timeZoneId\<close>, \<^verbatim>\<open>getTimezone\<close> returns \<^verbatim>\<open>null\<close>, the variable
  \<^verbatim>\<open>result\<close> is overwritten with it, and \<^verbatim>\<open>resolveLocations\<close> yields \<^verbatim>\<open>null\<close> in place of
  the record (and would write that list to the cache).
\<close>

theorem null_timeZoneId_yields_null:
  "resolveLocations (env_geo None) (Some us_query) =
     ([Did (GoogleRequest (QComponents (Str ''us'') ''country:US'')),
       Did (GoogleRequest (QTimezone (Some 38) (Some (-97)))),
       Yield None], None)"
  by (rule resolveLocations_us_null)

lemma us_id_fields [simp]:
  "location (us_query\<lparr> id' := Some ''p'' \<rparr>) = None"
  "country (us_query\<lparr> id' := Some ''p'' \<rparr>) = Some ''US''"
  by (simp_all add: us_query_def empty_loc_def)

lemma placeId_strategy_us:
  "resolveLocationByPlaceId (env_geo None) (us_query\<lparr> id' := Some ''p'' \<rparr>) k =
     Effect (GoogleRequest (QPlaceId (Some ''p''))) (YieldFresh (Some us_record) k)"
  by (simp add: resolveLocationByPlaceId_def Let_def placeId_request_def or_str_def
      run_google_ok [where d = "\<lparr> results = Some [raw_us], timeZoneId = None \<rparr>"
                      and ys = "[us_record]"]
      google_geo_def processGoogleResponse_def process_raw_us(3))

text \<open>
  C2 (as stated).  The cascade is claimed to end once the identifier facet has yielded,
  also after a live lookup.  For the query \<^verbatim>\<open>{id: "p", country: "US"}\<close>, with no cache and
  the default priorities, the place-id lookup yields a record and the cascade goes on to
  the country facet, whose request to the provider yields another.
\<close>

theorem live_id_lookup_continues:
  "trace (resolveLocation (env_geo None) (Some (us_query\<lparr> id' := Some ''p'' \<rparr>))) =
     [Did (GoogleRequest (QPlaceId (Some ''p''))), Yield (Some us_record),
      Did (GoogleRequest (QComponents (Str ''us'') ''country:US'')), Yield (Some us_record)]"
  by (simp add: resolveLocation_def defaultResolvePriorities_def facet_skip facet_id
      facet_country cached_or_no_cache placeId_strategy_us
      components_strategy_us [OF _ _ components_us(3) process_raw_us(3)])


lemma cached_paris_id: "cached_records env_paris (probe_id paris_id_query) = Inr [Some paris]"
  by code_simp

lemma cached_us_id:
  "cached_records (env_geo None) (probe_id (us_canonical\<lparr> id' := Some ''p'', u_id := Some ''p'' \<rparr>))
     = Inr []"
  by (simp add: cached_records_def)

text \<open>The amended C2 at two inputs: the identifier found in the cache of \<open>env_paris\<close>,
  and the identifier looked up live under \<open>env_geo\<close>.\<close>

theorem id_facet_breaks_on_cache_hit_only_witness:
  "truthy (id' paris_id_query)
   \<and> id' paris_id_query = id' (empty_loc\<lparr> id' := Some ''place-paris'' \<rparr>)
   \<and> cached_records env_paris (probe_id paris_id_query) = Inr [Some paris]
   \<and> trace (resolveLocation_loop env_paris paris_id_query [P_id, P_country]
              (empty_loc\<lparr> id' := Some ''place-paris'' \<rparr>))
       = map Did (cache_effects env_paris (probe_id paris_id_query)
                  @ cache_effects env_paris (probe_id paris_id_query)) @ [Yield (Some paris)]
   \<and> cached_records (env_geo None)
        (probe_id (us_canonical\<lparr> id' := Some ''p'', u_id := Some ''p'' \<rparr>)) = Inr []
   \<and> trace (resolveLocation_loop (env_geo None)
              (us_canonical\<lparr> id' := Some ''p'', u_id := Some ''p'' \<rparr>) [P_id, P_country]
              (us_query\<lparr> id' := Some ''p'' \<rparr>))
       = Did (GoogleRequest (QPlaceId (Some ''p''))) # Yield (Some us_record)
           # trace (resolveLocation_loop (env_geo None)
                      (us_canonical\<lparr> id' := Some ''p'', u_id := Some ''p'' \<rparr>) [P_country]
                      (us_query\<lparr> id' := Some ''p'' \<rparr>))"
proof -
  have a1: "truthy (id' paris_id_query)"
    by (simp add: paris_id_query_def empty_loc_def)
  have a2: "id' paris_id_query = id' (empty_loc\<lparr> id' := Some ''place-paris'' \<rparr>)"
    by (simp add: paris_id_query_def empty_loc_def)
  have b1: "truthy (id' (us_canonical\<lparr> id' := Some ''p'', u_id := Some ''p'' \<rparr>))"
    by simp
  have b2: "id' (us_canonical\<lparr> id' := Some ''p'', u_id := Some ''p'' \<rparr>)
              = id' (us_query\<lparr> id' := Some ''p'' \<rparr>)"
    by simp
  have b3: "google (env_geo None)
              (placeId_request (queryFromLocation_obj (env_geo None) (us_query\<lparr> id' := Some ''p'' \<rparr>)))
            = Inr \<lparr> results = Some [raw_us], timeZoneId = None \<rparr>"
    by (simp add: placeId_request_def or_str_def google_geo_def)
  have b4: "processGoogleResponse (env_geo None)
              (Some (queryFromLocation_obj (env_geo None) (us_query\<lparr> id' := Some ''p'' \<rparr>)))
              \<lparr> results = Some [raw_us], timeZoneId = None \<rparr> = ([us_record], None)"
    by (simp add: processGoogleResponse_def process_raw_us(3))
  have b5: "placeId_request (queryFromLocation_obj (env_geo None) (us_query\<lparr> id' := Some ''p'' \<rparr>))
              = QPlaceId (Some ''p'')"
    by (simp add: placeId_request_def or_str_def)
  have b6: "cache_effects (env_geo None) q = []" for q
    by (simp add: cache_effects_def)
  from id_facet_breaks_on_cache_hit_only [OF a1 a2, of env_paris "[Some paris]" "[P_country]"]
       id_facet_breaks_on_cache_hit_only [OF b1 b2, of "env_geo None" _ "[P_country]"
          "\<lparr> results = Some [raw_us], timeZoneId = None \<rparr>" "[us_record]"]
       a1 a2 cached_paris_id cached_us_id b3 b4 b5 b6
  show ?thesis by simp
qed


lemma cached_paris_locality:
  "cached_records env_paris (empty_loc\<lparr> locality := Some ''Paris'' \<rparr>) = Inr [Some paris]"
  by code_simp

lemma cache_effects_paris_locality:
  "cache_effects env_paris (empty_loc\<lparr> locality := Some ''Paris'' \<rparr>)
     = [CacheGet ''-|Paris|-|-|-|-|-'']"
  by code_simp

text \<open>C3 at the locality-only query \<^verbatim>\<open>{locality: "Paris"}\<close> with its narrow entry in
  the cache.\<close>

theorem cache_hit_ends_cascade_witness:
  "cached_records env_paris (empty_loc\<lparr> locality := Some ''Paris'' \<rparr>) = Inr [Some paris]
   \<and> facet_applies (empty_loc\<lparr> locality := Some ''Paris'', resolveIpWithGeo := Some True \<rparr>)
        (empty_loc\<lparr> locality := Some ''Paris'' \<rparr>) P_locality
   \<and> narrow_probe (empty_loc\<lparr> locality := Some ''Paris'', resolveIpWithGeo := Some True \<rparr>)
        P_locality = Some (empty_loc\<lparr> locality := Some ''Paris'' \<rparr>)
   \<and> resolvePriority env_paris = defaultResolvePriorities
   \<and> trace (resolveLocation_loop env_paris
              (empty_loc\<lparr> locality := Some ''Paris'', resolveIpWithGeo := Some True \<rparr>)
              [P_locality, P_administrativeLevel1, P_administrativeLevel2, P_country]
              (empty_loc\<lparr> locality := Some ''Paris'' \<rparr>))
       = [Did (CacheGet ''-|Paris|-|-|-|-|-''), Did (CacheGet ''-|Paris|-|-|-|-|-''),
          Yield (Some paris)]
   \<and> trace (resolveLocation env_paris (Some (empty_loc\<lparr> locality := Some ''Paris'' \<rparr>)))
       = [Did (CacheGet ''-|Paris|-|-|-|-|-''), Did (CacheGet ''-|Paris|-|-|-|-|-''),
          Yield (Some paris)]"
proof -
  have h1: "cached_records env_paris (empty_loc\<lparr> locality := Some ''Paris'' \<rparr>) = Inr [Some paris]"
    by (rule cached_paris_locality)
  have h2: "[Some paris] \<noteq> []" by simp
  have h3: "facet_applies (empty_loc\<lparr> locality := Some ''Paris'', resolveIpWithGeo := Some True \<rparr>)
        (empty_loc\<lparr> locality := Some ''Paris'' \<rparr>) P_locality"
    by (simp add: empty_loc_def)
  have h4: "narrow_probe (empty_loc\<lparr> locality := Some ''Paris'', resolveIpWithGeo := Some True \<rparr>)
        P_locality = Some (empty_loc\<lparr> locality := Some ''Paris'' \<rparr>)"
    by (simp add: probe_locality_only)
  have h5: "resolvePriority env_paris = defaultResolvePriorities"
    by (simp add: env_paris_def env0_def)
  from cache_hit_ends_cascade [OF h1 h2,
         of "empty_loc\<lparr> locality := Some ''Paris'', resolveIpWithGeo := Some True \<rparr>"
            "empty_loc\<lparr> locality := Some ''Paris'' \<rparr>" P_locality
            "[P_administrativeLevel1, P_administrativeLevel2, P_country]" "''Paris''"]
       h1 h3 h4 h5 cache_effects_paris_locality
  show ?thesis by simp
qed


lemma ip_record_8888: "ip_record env_ip (ip_query ''8.8.8.8'') geo_8888 = Inr ip_8888_record"
  by code_simp

text \<open>C7 at the query \<^verbatim>\<open>{ipAddress: "8.8.8.8"}\<close>.\<close>

theorem ip_only_query_one_record_witness:
  "''8.8.8.8'' \<noteq> []
   \<and> geoip_city env_ip (Some ''8.8.8.8'') = Inr geo_8888
   \<and> P_ipAddress \<in> set (resolvePriority env_ip)
   \<and> trace (resolveLocation env_ip (Some (ip_query ''8.8.8.8'')))
       = [Did (GeoIpLookup (Some ''8.8.8.8'')), Yield (Some ip_8888_record)]
   \<and> outcome (resolveLocation env_ip (Some (ip_query ''8.8.8.8''))) = None
   \<and> resolveOneLocation env_ip (Some (ip_query ''8.8.8.8''))
       = ([GeoIpLookup (Some ''8.8.8.8'')], Inr (Some ip_8888_record))
   \<and> id' ip_8888_record = Some (cacheKey env_ip (queryFromLocation env_ip (Some (ip_query ''8.8.8.8''))))"
proof -
  have h1: "''8.8.8.8'' \<noteq> []" by simp
  have h2: "geoip_city env_ip (Some ''8.8.8.8'') = Inr geo_8888"
    by (simp add: env_ip_def env0_def)
  have h3: "P_ipAddress \<in> set (resolvePriority env_ip)"
    by (simp add: env_ip_def env0_def defaultResolvePriorities_def)
  from ip_only_query_one_record [OF h1 h2 h3] ip_record_8888 h1 h2 h3
  show ?thesis by auto
qed



lemma process_record_a:
  "process_record env0 (empty_loc\<lparr> id' := Some ''a'' \<rparr>)
     = ([], Inr (Some (empty_loc\<lparr> id' := Some ''a'', safeLabel := Some [] \<rparr>)),
        empty_loc\<lparr> id' := Some ''a'', safeLabel := Some [] \<rparr>)"
  by code_simp


section \<open>What the enrichment swallows\<close>

text \<open>When \<^verbatim>\<open>getTimezone\<close> throws, the record is left as it was and the country step is
  not tried; when it returns \<^verbatim>\<open>null\<close>, the variable \<^verbatim>\<open>result\<close> is \<^verbatim>\<open>null\<close> afterwards and
  \<^verbatim>\<open>null\<close> is what is yielded.\<close>

lemma enrich_timezone_throws:
  "timezone r = None \<Longrightarrow> snd (getTimezone e r) = Inl err \<Longrightarrow> snd (enrich e r) = Some r"
  by (cases "getTimezone e r") (simp add: enrich_def)

lemma enrich_timezone_null:
  "timezone r = None \<Longrightarrow> snd (getTimezone e r) = Inr None \<Longrightarrow> snd (enrich e r) = None"
  by (cases "getTimezone e r") (simp add: enrich_def)

lemma process_record_timezone_null:
  "timezone r = None \<Longrightarrow> snd (getTimezone e r) = Inr None \<Longrightarrow>
   snd (process_record e r) = (Inr None, r)"
  by (cases "getTimezone e r")
     (simp add: process_record_def enrich_def locationFromQuery_def)

lemma location_update_same:
  "location r = Some l \<Longrightarrow> r\<lparr> location := Some l, id' := X \<rparr> = r\<lparr> id' := X \<rparr>"
  by (metis Loc.surjective Loc.update_convs(8))

lemma canonical_location_None:
  "location r = None \<Longrightarrow> location (queryFromLocation_obj e r) = None"
  by (simp add: queryFromLocation_obj_def query_location_def)

lemma canonical_id: "id' (queryFromLocation_obj e r) = or_str (u_id r) (id' r)"
  by (simp add: queryFromLocation_obj_def)

lemma getCountryInfo_located:
  assumes "location r = Some l"
  shows "getCountryInfo e r =
      (case countryData e (country_key (country (queryFromLocation_obj e r))) of
         None \<Rightarrow>
           (Some (LocationQueryError (Some (queryFromLocation_obj e r)) TypeError),
            r\<lparr> id' := or_str (id' r) (or_str (u_id r) (id' r)) \<rparr>)
       | Some ci \<Rightarrow>
           if list_all (\<lambda>s. languageData e s \<noteq> None) (clanguages ci)
           then (None,
                 r\<lparr> id' := or_str (id' r) (or_str (u_id r) (id' r)) \<rparr>
                  \<lparr> languages := Some (map (languageData e) (clanguages ci)),
                    phoneCode := phone ci \<rparr>)
           else (Some (LocationQueryError (Some (queryFromLocation_obj e r)) TypeError),
                 r\<lparr> id' := or_str (id' r) (or_str (u_id r) (id' r)) \<rparr>))"
  using assms
  by (simp only: getCountryInfo_def Let_def option.case canonical_id
      location_update_same [OF assms])

text \<open>When \<^verbatim>\<open>getCountryInfo\<close> throws, the record is as it was, except that its \<^verbatim>\<open>id\<close>
  has been filled in from \<^verbatim>\<open>_id\<close> when it has a location.\<close>

lemma getCountryInfo_throws:
  assumes "fst (getCountryInfo e r) = Some err"
  shows "snd (getCountryInfo e r) =
           (case location r of
              None \<Rightarrow> r
            | Some l \<Rightarrow> r\<lparr> id' := or_str (id' r) (or_str (u_id r) (id' r)) \<rparr>)"
proof (cases "location r")
  case None
  then show ?thesis
    by (simp add: getCountryInfo_def Let_def canonical_location_None)
next
  case (Some l)
  note u = getCountryInfo_located [OF Some, of e]
  show ?thesis
  proof (cases "countryData e (country_key (country (queryFromLocation_obj e r)))")
    case None
    then show ?thesis using u Some by simp
  next
    case (Some ci)
    show ?thesis
    proof (cases "list_all (\<lambda>s. languageData e s \<noteq> None) (clanguages ci)")
      case True
      then have "fst (getCountryInfo e r) = None" using u Some by simp
      then show ?thesis using assms by simp
    next
      case False
      then show ?thesis using u Some \<open>location r = Some l\<close> by simp
    qed
  qed
qed

end
